theory Spec2Isabelle
  imports Complex_Main
begin

section \<open>JavaScript values and failures\<close>

text \<open>
  The server is TypeScript running on Node. A thrown value is either an \<open>Error\<close> instance
  (plain, a \<open>TypeError\<close> raised by the engine, or the protocol's \<open>McpError\<close> with its code)
  or some other value. Every \<open>async\<close> function is modelled as a function returning
  \<open>js_error + 'a\<close>: \<open>Inl\<close> is a rejected promise (a throw), \<open>Inr\<close> a fulfilled one.
\<close>

datatype ErrorCode = InvalidParams | MethodNotFound | InternalError

datatype js_error =
    Error string
  | TypeError string
  | McpError ErrorCode string
  | NonError

text \<open>
  The recurring expression \<^verbatim>\<open>error instanceof Error ? error.message : 'Unknown error'\<close>.
  An \<open>McpError\<close> is kept with the code and text it was constructed from; the program never
  reads the message of one.
\<close>

fun error_message :: "js_error \<Rightarrow> string" where
  "error_message (Error m) = m"
| "error_message (TypeError m) = m"
| "error_message (McpError c m) = m"
| "error_message NonError = ''Unknown error''"

fun is_McpError :: "js_error \<Rightarrow> bool" where
  "is_McpError (McpError c m) = True"
| "is_McpError _ = False"

text \<open>\<^verbatim>\<open>a || d\<close> on an optional string: \<open>undefined\<close> and the empty string are falsy.\<close>

definition or_str :: "string option \<Rightarrow> string \<Rightarrow> string" where
  "or_str a d = (case a of None \<Rightarrow> d | Some s \<Rightarrow> if s = [] then d else s)"

text \<open>\<^verbatim>\<open>a || d\<close> on an optional array: every array, the empty one too, is truthy.\<close>

definition or_list :: "'a list option \<Rightarrow> 'a list \<Rightarrow> 'a list" where
  "or_list a d = (case a of None \<Rightarrow> d | Some xs \<Rightarrow> xs)"

text \<open>\<^verbatim>\<open>a || d\<close> on an optional number or boolean: \<open>undefined\<close>, \<open>0\<close> and \<open>false\<close> are falsy.\<close>

definition or_int :: "int option \<Rightarrow> int \<Rightarrow> int" where
  "or_int a d = (case a of None \<Rightarrow> d | Some n \<Rightarrow> if n = 0 then d else n)"

definition or_bool :: "bool option \<Rightarrow> bool \<Rightarrow> bool" where
  "or_bool a d = (case a of None \<Rightarrow> d | Some b \<Rightarrow> if b then b else d)"

text \<open>
  Rendering of an integral number inside a template literal (decimal, a leading minus sign
  for negative values). The millisecond counts, ports and counters rendered by the program
  are integers far below \<open>10\<^sup>2\<^sup>1\<close>, where JavaScript switches to exponent notation.
\<close>

definition digit_char :: "nat \<Rightarrow> char" where
  "digit_char d = ''0123456789'' ! d"

fun show_nat :: "nat \<Rightarrow> string" where
  "show_nat n = (if n < 10 then [digit_char n] else show_nat (n div 10) @ [digit_char (n mod 10)])"

declare show_nat.simps [simp del]

definition show_int :: "int \<Rightarrow> string" where
  "show_int i = (if i < 0 then CHR ''-'' # show_nat (nat (- i)) else show_nat (nat i))"

text \<open>
  \<^verbatim>\<open>a % b\<close> on integral numbers with \<open>b > 0\<close>: the remainder takes the sign of the dividend.
  \<^verbatim>\<open>Math.floor(a / b)\<close> is \<open>a div b\<close> on \<open>int\<close>, which rounds towards minus infinity.
\<close>

definition js_rem :: "int \<Rightarrow> int \<Rightarrow> int" where
  "js_rem a b = (if 0 \<le> a then a mod b else - ((- a) mod b))"

definition join_comma :: "string list \<Rightarrow> string" where
  "join_comma xs = (case xs of [] \<Rightarrow> [] | y # ys \<Rightarrow> foldl (\<lambda>acc s. acc @ '','' @ s) y ys)"


section \<open>Cluster API objects (the fields the inspector reads)\<close>

text \<open>
  Every field of the objects returned by the cluster API client is optional in the client's
  typings; an absent field is \<open>None\<close>. A \<open>Date\<close> is its time value in milliseconds since the
  epoch, \<open>None\<close> for an invalid date.
\<close>

type_synonym js_date = "int option"

record V1ObjectMeta =
  meta_name :: "string option"
  meta_namespace :: "string option"
  creationTimestamp :: "js_date option"

record V1ContainerStatus =
  ready :: bool
  restartCount :: "int option"

record V1PodStatus =
  phase :: "string option"
  containerStatuses :: "V1ContainerStatus list option"

record V1PodSpec =
  nodeName :: "string option"

record V1Pod =
  pod_metadata :: "V1ObjectMeta option"
  pod_spec :: "V1PodSpec option"
  pod_status :: "V1PodStatus option"

record V1LoadBalancerIngress =
  ip :: "string option"
  hostname :: "string option"

record V1LoadBalancerStatus =
  ingress :: "V1LoadBalancerIngress list option"

record V1ServiceStatus =
  loadBalancer :: "V1LoadBalancerStatus option"

record V1ServicePort =
  port :: int
  nodePort :: "int option"
  protocol :: "string option"

record V1ServiceSpec =
  spec_type :: "string option"
  clusterIP :: "string option"
  externalIPs :: "string list option"
  ports :: "V1ServicePort list option"

record V1Service =
  svc_metadata :: "V1ObjectMeta option"
  svc_spec :: "V1ServiceSpec option"
  svc_status :: "V1ServiceStatus option"

record PodInfo =
  pi_name :: string
  pi_namespace :: string
  pi_status :: string
  pi_ready :: string
  pi_restarts :: int
  pi_age :: string
  pi_node :: string

record ServiceInfo =
  si_name :: string
  si_namespace :: string
  si_type :: string
  si_clusterIP :: string
  si_externalIP :: string
  si_ports :: string
  si_age :: string

record DeploymentsInfo =
  pods :: "PodInfo list"
  services :: "ServiceInfo list"


section \<open>Per-object projections of \<open>K8sClient\<close>\<close>

definition getPodReadyStatus :: "V1Pod \<Rightarrow> string" where
  "getPodReadyStatus pod =
     (case Option.bind (pod_status pod) containerStatuses of
        None \<Rightarrow> ''0/0''
      | Some cs \<Rightarrow> show_nat (length (filter ready cs)) @ ''/'' @ show_nat (length cs))"

definition getPodRestartCount :: "V1Pod \<Rightarrow> int" where
  "getPodRestartCount pod =
     (case Option.bind (pod_status pod) containerStatuses of
        None \<Rightarrow> 0
      | Some cs \<Rightarrow> foldl (\<lambda>total st. total + or_int (restartCount st) 0) 0 cs)"

text \<open>
  \<open>getExternalIP\<close>. The guard \<^verbatim>\<open>if (service.status?.loadBalancer?.ingress)\<close> holds for every
  array, the empty one included; \<^verbatim>\<open>ingress[0]\<close> of an empty array is \<open>undefined\<close>, and reading
  \<^verbatim>\<open>.ip\<close> of it throws a \<open>TypeError\<close> (the message is the one of Node's engine).
\<close>

definition getExternalIP :: "V1Service \<Rightarrow> js_error + string" where
  "getExternalIP service =
     (case Option.bind (Option.bind (svc_status service) loadBalancer) ingress of
        Some ing \<Rightarrow>
          (case ing of
             [] \<Rightarrow> Inl (TypeError ''Cannot read properties of undefined (reading 'ip')'')
           | i0 # _ \<Rightarrow> Inr (or_str (ip i0) (or_str (hostname i0) ''<pending>'')))
      | None \<Rightarrow>
          (case Option.bind (svc_spec service) externalIPs of
             Some (e # es) \<Rightarrow> Inr (join_comma (e # es))
           | _ \<Rightarrow> Inr ''<none>''))"

definition render_port :: "V1ServicePort \<Rightarrow> string" where
  "render_port p =
     (let proto = or_str (protocol p) ''TCP'' in
      if or_int (nodePort p) 0 \<noteq> 0
      then show_int (port p) @ '':'' @ show_int (or_int (nodePort p) 0) @ ''/'' @ proto
      else show_int (port p) @ ''/'' @ proto)"

definition getServicePorts :: "V1Service \<Rightarrow> string" where
  "getServicePorts service =
     (case Option.bind (svc_spec service) ports of
        None \<Rightarrow> ''<none>''
      | Some ps \<Rightarrow> if ps = [] then ''<none>'' else join_comma (map render_port ps))"

text \<open>
  \<open>calculateAge\<close>. The two platform calls are parameters: \<open>parse\<close> is the time value of
  \<^verbatim>\<open>new Date(creationTimestamp)\<close> (\<open>None\<close> for an unparsable string, whose time value is
  \<open>NaN\<close>) and \<open>now\<close> is the time value of \<^verbatim>\<open>new Date()\<close>. Every comparison with \<open>NaN\<close> is
  false, so an unparsable timestamp reaches the last branch and renders \<open>NaNm\<close>.
\<close>

definition ms_per_minute :: int where "ms_per_minute = 1000 * 60"
definition ms_per_hour :: int where "ms_per_hour = 1000 * 60 * 60"
definition ms_per_day :: int where "ms_per_day = 1000 * 60 * 60 * 24"

definition calculateAge :: "(string \<Rightarrow> int option) \<Rightarrow> int \<Rightarrow> string option \<Rightarrow> string" where
  "calculateAge parse now creationTimestamp_opt =
     (case creationTimestamp_opt of
        None \<Rightarrow> ''unknown''
      | Some ts \<Rightarrow>
          if ts = [] then ''unknown''
          else (case parse ts of
                  None \<Rightarrow> ''NaNm''
                | Some created \<Rightarrow>
                    (let diffMs = now - created;
                         days = diffMs div ms_per_day;
                         hours = js_rem diffMs ms_per_day div ms_per_hour;
                         minutes = js_rem diffMs ms_per_hour div ms_per_minute
                     in if days > 0 then show_int days @ ''d''
                        else if hours > 0 then show_int hours @ ''h''
                        else show_int minutes @ ''m'')))"

section \<open>Control-plane data (\<open>types.ts\<close> and the cloud SDK's shapes)\<close>

record aws_credentials =
  accessKeyId :: "string option"
  secretAccessKey :: "string option"
  sessionToken :: "string option"

record EKSCredentials =
  cred_accessKeyId :: "string option"
  cred_secretAccessKey :: "string option"
  cred_sessionToken :: "string option"
  cred_region :: string

text \<open>
  The configuration a control-plane client is constructed with: a region string and, when
  given, static credentials. Constructing a client is taken to succeed.
\<close>

record client_config =
  cfg_region :: string
  cfg_credentials :: "aws_credentials option"

text \<open>
  What \<^verbatim>\<open>this.eksClient.config.region\<close> evaluates to. A client is constructed from a region
  string, but its resolved configuration holds the region as a provider function (an
  asynchronous function resolving to that string), and the provider is what the read
  returns; the source's cast \<^verbatim>\<open>as string\<close> exists at compile time only. A region-typed
  value at run time is therefore a string or a provider, and a string is never strictly
  equal to a provider.
\<close>

datatype region_value = RegionString string | RegionProvider string

definition config_region :: "client_config \<Rightarrow> region_value" where
  "config_region cfg = RegionProvider (cfg_region cfg)"

text \<open>The SDK's \<open>Cluster\<close>: every field may be absent.\<close>

record VpcConfigResponse =
  vpc_subnetIds :: "string list option"
  vpc_securityGroupIds :: "string list option"
  vpc_endpointPrivateAccess :: "bool option"
  vpc_endpointPublicAccess :: "bool option"
  vpc_publicAccessCidrs :: "string list option"

record LogSetup =
  log_types :: "string list option"
  log_enabled :: "bool option"

record Logging =
  clusterLogging :: "LogSetup list option"

record Cluster =
  c_name :: "string option"
  c_arn :: "string option"
  c_status :: "string option"
  c_version :: "string option"
  c_endpoint :: "string option"
  c_createdAt :: "js_date option"
  c_roleArn :: "string option"
  c_resourcesVpcConfig :: "VpcConfigResponse option"
  c_logging :: "Logging option"
  c_platformVersion :: "string option"
  c_tags :: "(string \<times> string) list option"

text \<open>
  \<open>ClusterInfo\<close> and \<open>ClusterDetails\<close>. The fields filled through a non-null assertion
  (\<^verbatim>\<open>cluster.name!\<close>) are not checked at run time, so they stay optional here. The
  \<open>region\<close> of a \<open>ClusterInfo\<close> is declared a string and filled with
  \<^verbatim>\<open>this.eksClient.config.region as string\<close>, so it holds whatever that read returns.
\<close>

record ClusterInfo =
  ci_name :: "string option"
  ci_region :: region_value
  ci_status :: "string option"

text \<open>
  A \<open>ClusterInfo\<close> as \<^verbatim>\<open>JSON.stringify\<close> writes it: a member whose value is \<open>undefined\<close> or a
  function is left out.
\<close>

record ClusterInfo_json =
  json_name :: "string option"
  json_region :: "string option"
  json_status :: "string option"

definition stringify_ClusterInfo :: "ClusterInfo \<Rightarrow> ClusterInfo_json" where
  "stringify_ClusterInfo info =
     \<lparr>json_name = ci_name info,
      json_region = (case ci_region info of RegionString r \<Rightarrow> Some r | RegionProvider r \<Rightarrow> None),
      json_status = ci_status info\<rparr>"

record EndpointConfigResponse =
  privateAccess :: bool
  publicAccess :: bool
  ec_publicAccessCidrs :: "string list"

record DetailsVpcConfig =
  dv_subnetIds :: "string list"
  dv_securityGroupIds :: "string list"
  endpointConfigResponse :: EndpointConfigResponse

record DetailsLogSetup =
  dl_types :: "string list"
  dl_enabled :: bool

record ClusterDetails =
  cd_name :: "string option"
  cd_arn :: "string option"
  cd_status :: "string option"
  cd_version :: "string option"
  cd_endpoint :: "string option"
  cd_createdAt :: "js_date option"
  cd_roleArn :: "string option"
  cd_vpcConfig :: DetailsVpcConfig
  cd_logging :: "DetailsLogSetup list"
  cd_platformVersion :: "string option"
  cd_tags :: "(string \<times> string) list"

record CreateClusterRequest =
  clusterName :: string
  region :: string
  kubernetesVersion :: string
  roleArn :: string
  subnetIds :: "string list"
  securityGroupIds :: "string list option"
  publicAccessCidrs :: "string list option"

datatype op_status = SUCCESS | FAILURE

record OperationStatus =
  os_status :: op_status
  os_message :: string
  os_clusterDetails :: "ClusterDetails option"

text \<open>The input of the SDK's create command, as \<open>createCluster\<close> fills it.\<close>

record VpcConfigRequest =
  rq_subnetIds :: "string list"
  rq_securityGroupIds :: "string list option"
  endpointPrivateAccess :: bool
  endpointPublicAccess :: bool
  rq_publicAccessCidrs :: "string list"

record LogSetupRequest =
  rq_types :: "string list"
  rq_enabled :: bool

record CreateClusterCommandInput =
  cc_name :: string
  cc_version :: string
  cc_roleArn :: string
  resourcesVpcConfig :: VpcConfigRequest
  logging_clusterLogging :: "LogSetupRequest list"

datatype eks_command =
    ListClustersCommand
  | DescribeClusterCommand string
  | CreateClusterCommand CreateClusterCommandInput
  | DeleteClusterCommand string

text \<open>The response object of a control-plane call; the code reads \<open>clusters\<close> or \<open>cluster\<close>.\<close>

record eks_output =
  out_clusters :: "string list option"
  out_cluster :: "Cluster option"

record caller_identity =
  UserId :: "string option"
  Account :: "string option"
  Arn :: "string option"

text \<open>The options handed to \<^verbatim>\<open>kc.loadFromOptions\<close>.\<close>

record kube_cluster =
  kc_name :: "string option"
  kc_server :: "string option"
  kc_certificateAuthorityData :: "string option"
  kc_skipTLSVerify :: bool

record kube_user =
  ku_name :: string
  ku_token :: string

record kube_context =
  kx_name :: "string option"
  kx_cluster :: "string option"
  kx_user :: string

record KubeConfig =
  kc_clusters :: "kube_cluster list"
  kc_users :: "kube_user list"
  kc_contexts :: "kube_context list"
  kc_currentContext :: "string option"


section \<open>The outside world\<close>

text \<open>
  The external collaborators are the cloud control plane, the identity service, the cluster
  API server and the clock. Each interaction of the program with one of them is recorded as
  an event, in the order the program issues it; \<open>TokenGenerated\<close> records a completed call
  of \<open>generateEKSToken\<close> with the token it built. What a collaborator answers is an arbitrary
  function of the events before the request and of the request itself, so a collaborator may
  keep state and may fail at any call.
\<close>

datatype event =
    EksSend client_config eks_command
  | StsSend client_config
  | ClockRead
  | TokenGenerated string
  | ListPods KubeConfig
  | ListServices KubeConfig

text \<open>
  The last three fields are platform functions whose code is not part of the repository:
  \<^verbatim>\<open>Date.prototype.toString\<close>, the time value of \<^verbatim>\<open>new Date(string)\<close> (\<open>None\<close> for \<open>NaN\<close>), and
  \<^verbatim>\<open>Buffer.from(JSON.stringify({cluster, region, timestamp})).toString('base64')\<close>.
\<close>

record environment =
  eks_send :: "event list \<Rightarrow> client_config \<Rightarrow> eks_command \<Rightarrow> js_error + eks_output"
  sts_send :: "event list \<Rightarrow> client_config \<Rightarrow> js_error + caller_identity"
  listPodForAllNamespaces :: "event list \<Rightarrow> KubeConfig \<Rightarrow> js_error + V1Pod list"
  listServiceForAllNamespaces :: "event list \<Rightarrow> KubeConfig \<Rightarrow> js_error + V1Service list"
  clock :: "event list \<Rightarrow> int"
  Date_toString :: "js_date \<Rightarrow> string"
  Date_parse :: "string \<Rightarrow> int option"
  base64_json :: "string option \<Rightarrow> string \<Rightarrow> int \<Rightarrow> string"

text \<open>
  The mutable state of the server: the two clients held by the \<open>EKSManager\<close> and the events
  issued so far.
\<close>

record system =
  eksClient :: client_config
  stsClient :: client_config
  history :: "event list"


section \<open>\<open>EKSManager\<close>\<close>

text \<open>\<^verbatim>\<open>new EKSClient({ region })\<close>: a configuration with the region and nothing else.\<close>

definition new_EKSClient :: "string \<Rightarrow> client_config" where
  "new_EKSClient r = \<lparr>cfg_region = r, cfg_credentials = None\<rparr>"

text \<open>The constructor; \<open>env_region\<close> is \<^verbatim>\<open>process.env.AWS_REGION\<close>.\<close>

definition EKSManager_constructor :: "string option \<Rightarrow> EKSCredentials option \<Rightarrow> system" where
  "EKSManager_constructor env_region credentials =
     (let config =
        (case credentials of
           Some c \<Rightarrow>
             \<lparr>cfg_region = cred_region c,
              cfg_credentials = Some \<lparr>accessKeyId = cred_accessKeyId c,
                                      secretAccessKey = cred_secretAccessKey c,
                                      sessionToken = cred_sessionToken c\<rparr>\<rparr>
         | None \<Rightarrow> \<lparr>cfg_region = or_str env_region ''us-east-1'', cfg_credentials = None\<rparr>)
      in \<lparr>eksClient = config, stsClient = config, history = []\<rparr>)"

text \<open>\<^verbatim>\<open>await this.eksClient.send(command)\<close>: the request is recorded, the answer is the world's.\<close>

definition send_eks :: "environment \<Rightarrow> system \<Rightarrow> eks_command \<Rightarrow> (js_error + eks_output) \<times> system" where
  "send_eks env s cmd =
     (eks_send env (history s) (eksClient s) cmd,
      s\<lparr>history := history s @ [EksSend (eksClient s) cmd]\<rparr>)"

definition mapClusterToDetails :: "Cluster \<Rightarrow> ClusterDetails" where
  "mapClusterToDetails cluster =
     \<lparr>cd_name = c_name cluster,
      cd_arn = c_arn cluster,
      cd_status = c_status cluster,
      cd_version = c_version cluster,
      cd_endpoint = c_endpoint cluster,
      cd_createdAt = c_createdAt cluster,
      cd_roleArn = c_roleArn cluster,
      cd_vpcConfig =
        \<lparr>dv_subnetIds = or_list (Option.bind (c_resourcesVpcConfig cluster) vpc_subnetIds) [],
         dv_securityGroupIds =
           or_list (Option.bind (c_resourcesVpcConfig cluster) vpc_securityGroupIds) [],
         endpointConfigResponse =
           \<lparr>privateAccess =
              or_bool (Option.bind (c_resourcesVpcConfig cluster) vpc_endpointPrivateAccess) False,
            publicAccess =
              or_bool (Option.bind (c_resourcesVpcConfig cluster) vpc_endpointPublicAccess) False,
            ec_publicAccessCidrs =
              or_list (Option.bind (c_resourcesVpcConfig cluster) vpc_publicAccessCidrs) []\<rparr>\<rparr>,
      cd_logging =
        or_list
          (map_option
             (map (\<lambda>log. \<lparr>dl_types = or_list (log_types log) [],
                            dl_enabled = or_bool (log_enabled log) False\<rparr>))
             (Option.bind (c_logging cluster) clusterLogging))
          [],
      cd_platformVersion = c_platformVersion cluster,
      cd_tags = or_list (c_tags cluster) []\<rparr>"

text \<open>
  The body of the \<open>map\<close> callback of \<open>listClusters\<close> for one cluster name, under the
  configuration \<open>cfg\<close> of the client and after the events \<open>h\<close>. A failing send is caught; so is
  the \<open>TypeError\<close> of reading \<^verbatim>\<open>cluster.name\<close> when the response has no \<open>cluster\<close>.
\<close>

definition describe_entry :: "environment \<Rightarrow> client_config \<Rightarrow> event list \<Rightarrow> string \<Rightarrow> ClusterInfo" where
  "describe_entry env cfg h cname =
     (let unknown = \<lparr>ci_name = Some cname, ci_region = config_region cfg,
                      ci_status = Some ''UNKNOWN''\<rparr>
      in case eks_send env h cfg (DescribeClusterCommand cname) of
           Inl e \<Rightarrow> unknown
         | Inr detailResponse \<Rightarrow>
             (case out_cluster detailResponse of
                None \<Rightarrow> unknown
              | Some cluster \<Rightarrow>
                  \<lparr>ci_name = c_name cluster, ci_region = config_region cfg,
                   ci_status = c_status cluster\<rparr>))"

text \<open>
  \<^verbatim>\<open>Promise.all(response.clusters.map(async ...))\<close>: the callbacks start in list order, each
  issuing its describe request at once, and the results are collected in list order. The
  requests are concurrent; the model fixes the order in which they are issued and lets each
  answer depend on the requests issued before it.
\<close>

fun describe_all ::
  "environment \<Rightarrow> client_config \<Rightarrow> event list \<Rightarrow> string list \<Rightarrow> ClusterInfo list \<times> event list" where
  "describe_all env cfg h [] = ([], h)"
| "describe_all env cfg h (n # ns) =
     (let info = describe_entry env cfg h n;
          (infos, h') = describe_all env cfg (h @ [EksSend cfg (DescribeClusterCommand n)]) ns
      in (info # infos, h'))"

text \<open>The describe requests for a list of names, as events under one configuration.\<close>

definition describe_requests :: "client_config \<Rightarrow> string list \<Rightarrow> event list" where
  "describe_requests cfg ns = map (\<lambda>n. EksSend cfg (DescribeClusterCommand n)) ns"

definition listClusters :: "environment \<Rightarrow> system \<Rightarrow> (js_error + ClusterInfo list) \<times> system" where
  "listClusters env s =
     (case send_eks env s ListClustersCommand of
        (Inl e, s1) \<Rightarrow>
          (Inl (Error (''Failed to list EKS clusters: '' @ error_message e)), s1)
      | (Inr response, s1) \<Rightarrow>
          (case out_clusters response of
             None \<Rightarrow> (Inr [], s1)
           | Some names \<Rightarrow>
               (let (clusterDetails, h) = describe_all env (eksClient s1) (history s1) names
                in (Inr clusterDetails, s1\<lparr>history := h\<rparr>))))"

text \<open>
  The region update of \<open>getClusterStatus\<close> and \<open>deleteCluster\<close>:
  \<^verbatim>\<open>if (region && region !== this.eksClient.config.region) this.eksClient = new EKSClient({ region })\<close>.
  An absent region and the empty string are falsy. The comparison is between the region
  string of the call and the provider held by the client, which are never equal, so every
  non-empty region replaces the client.
\<close>

definition update_region_if_provided :: "string option \<Rightarrow> system \<Rightarrow> system" where
  "update_region_if_provided region_opt s =
     (case region_opt of
        None \<Rightarrow> s
      | Some r \<Rightarrow>
          if r \<noteq> [] \<and> RegionString r \<noteq> config_region (eksClient s)
          then s\<lparr>eksClient := new_EKSClient r\<rparr> else s)"

definition getClusterStatus ::
  "environment \<Rightarrow> system \<Rightarrow> string \<Rightarrow> string option \<Rightarrow> (js_error + ClusterDetails) \<times> system" where
  "getClusterStatus env s name region_opt =
     (let s0 = update_region_if_provided region_opt s in
      case send_eks env s0 (DescribeClusterCommand name) of
        (Inl e, s1) \<Rightarrow>
          (Inl (Error (''Failed to get cluster status: '' @ error_message e)), s1)
      | (Inr response, s1) \<Rightarrow>
          (case out_cluster response of
             None \<Rightarrow>
               (Inl (Error (''Failed to get cluster status: '' @
                             error_message (Error (''Cluster '' @ name @ '' not found'')))), s1)
           | Some cluster \<Rightarrow> (Inr (mapClusterToDetails cluster), s1)))"

text \<open>The command \<open>createCluster\<close> builds from its request.\<close>

definition create_command_input :: "CreateClusterRequest \<Rightarrow> CreateClusterCommandInput" where
  "create_command_input request =
     \<lparr>cc_name = clusterName request,
      cc_version = kubernetesVersion request,
      cc_roleArn = roleArn request,
      resourcesVpcConfig =
        \<lparr>rq_subnetIds = subnetIds request,
         rq_securityGroupIds = securityGroupIds request,
         endpointPrivateAccess = True,
         endpointPublicAccess = True,
         rq_publicAccessCidrs = or_list (publicAccessCidrs request) [''0.0.0.0/0'']\<rparr>,
      logging_clusterLogging =
        [\<lparr>rq_types = [''api'', ''audit'', ''authenticator'', ''controllerManager'', ''scheduler''],
          rq_enabled = True\<rparr>]\<rparr>"

text \<open>
  \<open>createCluster\<close>: the \<open>try\<close> block first, then the function with its \<open>catch\<close>, which turns
  every failure of the block into a \<open>FAILURE\<close> status. The region update is not guarded by
  \<^verbatim>\<open>region &&\<close> here: \<^verbatim>\<open>if (request.region !== this.eksClient.config.region)\<close>, again a
  string compared with a provider, so every call builds a new client.
\<close>

definition createCluster_try ::
  "environment \<Rightarrow> system \<Rightarrow> CreateClusterRequest \<Rightarrow> (js_error + OperationStatus) \<times> system" where
  "createCluster_try env s request =
     (let s0 = (if RegionString (region request) \<noteq> config_region (eksClient s)
                then s\<lparr>eksClient := new_EKSClient (region request)\<rparr> else s)
      in case send_eks env s0 (CreateClusterCommand (create_command_input request)) of
           (Inl e, s1) \<Rightarrow> (Inl e, s1)
         | (Inr response, s1) \<Rightarrow>
             (case out_cluster response of
                None \<Rightarrow> (Inl (Error ''Failed to create cluster - no cluster data returned''), s1)
              | Some cluster \<Rightarrow>
                  (Inr \<lparr>os_status = SUCCESS,
                        os_message = ''Cluster '' @ clusterName request @
                                     '' creation initiated successfully'',
                        os_clusterDetails = Some (mapClusterToDetails cluster)\<rparr>, s1)))"

definition createCluster ::
  "environment \<Rightarrow> system \<Rightarrow> CreateClusterRequest \<Rightarrow> (js_error + OperationStatus) \<times> system" where
  "createCluster env s request =
     (case createCluster_try env s request of
        (Inr r, s1) \<Rightarrow> (Inr r, s1)
      | (Inl e, s1) \<Rightarrow>
          (Inr \<lparr>os_status = FAILURE,
                os_message = ''Failed to create cluster: '' @ error_message e,
                os_clusterDetails = None\<rparr>, s1))"

definition deleteCluster_try ::
  "environment \<Rightarrow> system \<Rightarrow> string \<Rightarrow> string option \<Rightarrow> (js_error + OperationStatus) \<times> system" where
  "deleteCluster_try env s name region_opt =
     (let s0 = update_region_if_provided region_opt s in
      case send_eks env s0 (DeleteClusterCommand name) of
        (Inl e, s1) \<Rightarrow> (Inl e, s1)
      | (Inr response, s1) \<Rightarrow>
          (Inr \<lparr>os_status = SUCCESS,
                os_message = ''Cluster '' @ name @ '' deletion initiated successfully'',
                os_clusterDetails = None\<rparr>, s1))"

definition deleteCluster ::
  "environment \<Rightarrow> system \<Rightarrow> string \<Rightarrow> string option \<Rightarrow> (js_error + OperationStatus) \<times> system" where
  "deleteCluster env s name region_opt =
     (case deleteCluster_try env s name region_opt of
        (Inr r, s1) \<Rightarrow> (Inr r, s1)
      | (Inl e, s1) \<Rightarrow>
          (Inr \<lparr>os_status = FAILURE,
                os_message = ''Failed to delete cluster: '' @ error_message e,
                os_clusterDetails = None\<rparr>, s1))"

definition getCallerIdentity :: "environment \<Rightarrow> system \<Rightarrow> (js_error + caller_identity) \<times> system" where
  "getCallerIdentity env s =
     (let s1 = s\<lparr>history := history s @ [StsSend (stsClient s)]\<rparr> in
      case sts_send env (history s) (stsClient s) of
        Inl e \<Rightarrow> (Inl (Error (''Failed to get caller identity: '' @ error_message e)), s1)
      | Inr identity \<Rightarrow> (Inr identity, s1))"


section \<open>\<open>K8sClient\<close>\<close>

text \<open>A value inside a template literal: \<open>undefined\<close> renders as the word.\<close>

definition template_str :: "string option \<Rightarrow> string" where
  "template_str v = (case v of None \<Rightarrow> ''undefined'' | Some s \<Rightarrow> s)"

definition generateEKSToken ::
  "environment \<Rightarrow> system \<Rightarrow> string option \<Rightarrow> string \<Rightarrow> string \<times> system" where
  "generateEKSToken env s cname rgn =
     (let tokenPrefix = ''k8s-aws-v1.'';
          clusterInfo = base64_json env cname rgn (clock env (history s));
          token = tokenPrefix @ clusterInfo
      in (token, s\<lparr>history := history s @ [ClockRead, TokenGenerated token]\<rparr>))"

text \<open>
  \<open>configureEKSAuth\<close> returns the loaded \<open>KubeConfig\<close>. \<open>ClusterDetails\<close> has no
  \<open>certificateAuthority\<close> field, so \<^verbatim>\<open>clusterDetails.certificateAuthority?.data\<close> is \<open>undefined\<close>.
  The only statement of the \<open>try\<close> block that can fail is the identity check; the \<open>catch\<close>
  wraps its error.
\<close>

definition configureEKSAuth ::
  "environment \<Rightarrow> system \<Rightarrow> ClusterDetails \<Rightarrow> string \<Rightarrow> (js_error + KubeConfig) \<times> system" where
  "configureEKSAuth env s clusterDetails rgn =
     (case getCallerIdentity env s of
        (Inl e, s1) \<Rightarrow>
          (Inl (Error (''Failed to configure EKS authentication: '' @ error_message e)), s1)
      | (Inr identity, s1) \<Rightarrow>
          (let (token, s2) = generateEKSToken env s1 (cd_name clusterDetails) rgn;
               cluster = \<lparr>kc_name = cd_name clusterDetails,
                          kc_server = cd_endpoint clusterDetails,
                          kc_certificateAuthorityData = None,
                          kc_skipTLSVerify = False\<rparr>;
               user = \<lparr>ku_name = template_str (cd_name clusterDetails) @ ''-user'',
                       ku_token = token\<rparr>;
               ctxt = \<lparr>kx_name = cd_name clusterDetails,
                       kx_cluster = cd_name clusterDetails,
                       kx_user = ku_name user\<rparr>
           in (Inr \<lparr>kc_clusters = [cluster], kc_users = [user], kc_contexts = [ctxt],
                     kc_currentContext = kx_name ctxt\<rparr>, s2)))"

text \<open>
  \<open>calculateAge\<close> as the inspector calls it, with the platform's parser and clock. The clock
  is read by \<^verbatim>\<open>new Date()\<close>, which comes after the early return for a missing timestamp.
\<close>

definition calculateAge_now :: "environment \<Rightarrow> system \<Rightarrow> string option \<Rightarrow> string \<times> system" where
  "calculateAge_now env s ts =
     (case ts of
        None \<Rightarrow> (''unknown'', s)
      | Some t \<Rightarrow>
          if t = [] then (''unknown'', s)
          else (calculateAge (Date_parse env) (clock env (history s)) (Some t),
                s\<lparr>history := history s @ [ClockRead]\<rparr>))"

definition timestamp_string :: "environment \<Rightarrow> V1ObjectMeta option \<Rightarrow> string option" where
  "timestamp_string env metadata =
     map_option (Date_toString env) (Option.bind metadata creationTimestamp)"

text \<open>
  What the platform does to a valid date on the way into \<open>calculateAge\<close>:
  \<^verbatim>\<open>Date.prototype.toString\<close> renders it to the second (a non-empty text without
  milliseconds), and \<^verbatim>\<open>new Date(text)\<close> reads that text back, so the time value that
  arrives is the original one rounded down to the whole second. The property is stated for
  one time value \<open>T\<close> of an environment.
\<close>

definition renders_to_second :: "environment \<Rightarrow> int \<Rightarrow> bool" where
  "renders_to_second env T \<longleftrightarrow>
     Date_toString env (Some T) \<noteq> [] \<and>
     Date_parse env (Date_toString env (Some T)) = Some (T div 1000 * 1000)"

text \<open>
  The age as the specification words it, for an elapsed time of \<open>d\<close> milliseconds: the
  largest whole unit that is at least one among days, hours and minutes, minutes otherwise.
\<close>

definition age_in_largest_unit :: "int \<Rightarrow> string" where
  "age_in_largest_unit d =
     (if 1 \<le> d div ms_per_day then show_int (d div ms_per_day) @ ''d''
      else if 1 \<le> d div ms_per_hour then show_int (d div ms_per_hour) @ ''h''
      else show_int (d div ms_per_minute) @ ''m'')"

definition project_pod :: "environment \<Rightarrow> system \<Rightarrow> V1Pod \<Rightarrow> PodInfo \<times> system" where
  "project_pod env s pod =
     (let (age, s') = calculateAge_now env s (timestamp_string env (pod_metadata pod))
      in (\<lparr>pi_name = or_str (Option.bind (pod_metadata pod) meta_name) ''unknown'',
           pi_namespace = or_str (Option.bind (pod_metadata pod) meta_namespace) ''default'',
           pi_status = or_str (Option.bind (pod_status pod) phase) ''Unknown'',
           pi_ready = getPodReadyStatus pod,
           pi_restarts = getPodRestartCount pod,
           pi_age = age,
           pi_node = or_str (Option.bind (pod_spec pod) nodeName) ''unknown''\<rparr>, s'))"

fun project_pods :: "environment \<Rightarrow> system \<Rightarrow> V1Pod list \<Rightarrow> PodInfo list \<times> system" where
  "project_pods env s [] = ([], s)"
| "project_pods env s (p # ps) =
     (let (i, s1) = project_pod env s p; (is, s2) = project_pods env s1 ps in (i # is, s2))"

text \<open>The object literal is evaluated field by field: a throwing \<open>getExternalIP\<close> ends it.\<close>

definition project_service ::
  "environment \<Rightarrow> system \<Rightarrow> V1Service \<Rightarrow> (js_error + ServiceInfo) \<times> system" where
  "project_service env s service =
     (case getExternalIP service of
        Inl e \<Rightarrow> (Inl e, s)
      | Inr ext \<Rightarrow>
          (let (age, s') = calculateAge_now env s (timestamp_string env (svc_metadata service))
           in (Inr \<lparr>si_name = or_str (Option.bind (svc_metadata service) meta_name) ''unknown'',
                    si_namespace =
                      or_str (Option.bind (svc_metadata service) meta_namespace) ''default'',
                    si_type = or_str (Option.bind (svc_spec service) spec_type) ''ClusterIP'',
                    si_clusterIP = or_str (Option.bind (svc_spec service) clusterIP) ''None'',
                    si_externalIP = ext,
                    si_ports = getServicePorts service,
                    si_age = age\<rparr>, s')))"

fun project_services ::
  "environment \<Rightarrow> system \<Rightarrow> V1Service list \<Rightarrow> (js_error + ServiceInfo list) \<times> system" where
  "project_services env s [] = (Inr [], s)"
| "project_services env s (v # vs) =
     (case project_service env s v of
        (Inl e, s1) \<Rightarrow> (Inl e, s1)
      | (Inr i, s1) \<Rightarrow>
          (case project_services env s1 vs of
             (Inl e, s2) \<Rightarrow> (Inl e, s2)
           | (Inr is, s2) \<Rightarrow> (Inr (i # is), s2)))"

text \<open>
  \<^verbatim>\<open>namespace === 'all' || !namespace ? undefined : namespace\<close>: the conditional binds weaker
  than \<^verbatim>\<open>||\<close>, and an absent or empty namespace is falsy.
\<close>

definition targetNamespace :: "string option \<Rightarrow> string option" where
  "targetNamespace namespace =
     (if namespace = Some ''all'' \<or> namespace = None \<or> namespace = Some [] then None
      else namespace)"

definition filter_namespace :: "string option \<Rightarrow> ('a \<Rightarrow> V1ObjectMeta option) \<Rightarrow> 'a list \<Rightarrow> 'a list" where
  "filter_namespace target metadata items =
     (case target of
        None \<Rightarrow> items
      | Some t \<Rightarrow> filter (\<lambda>x. Option.bind (metadata x) meta_namespace = Some t) items)"

definition listClusterDeployments_try ::
  "environment \<Rightarrow> system \<Rightarrow> string \<Rightarrow> string option \<Rightarrow> string option \<Rightarrow>
   (js_error + DeploymentsInfo) \<times> system" where
  "listClusterDeployments_try env s cname region_opt namespace =
     (case getClusterStatus env s cname region_opt of
        (Inl e, s1) \<Rightarrow> (Inl e, s1)
      | (Inr clusterDetails, s1) \<Rightarrow>
     (case configureEKSAuth env s1 clusterDetails (or_str region_opt ''us-east-1'') of
        (Inl e, s2) \<Rightarrow> (Inl e, s2)
      | (Inr kc, s2) \<Rightarrow>
     (case listPodForAllNamespaces env (history s2) kc of
        Inl e \<Rightarrow> (Inl e, s2\<lparr>history := history s2 @ [ListPods kc]\<rparr>)
      | Inr podItems \<Rightarrow>
     (let s3 = s2\<lparr>history := history s2 @ [ListPods kc]\<rparr> in
      case listServiceForAllNamespaces env (history s3) kc of
        Inl e \<Rightarrow> (Inl e, s3\<lparr>history := history s3 @ [ListServices kc]\<rparr>)
      | Inr serviceItems \<Rightarrow>
     (let s4 = s3\<lparr>history := history s3 @ [ListServices kc]\<rparr>;
          filteredPods = filter_namespace (targetNamespace namespace) pod_metadata podItems;
          filteredServices = filter_namespace (targetNamespace namespace) svc_metadata serviceItems;
          (podInfos, s5) = project_pods env s4 filteredPods
      in case project_services env s5 filteredServices of
           (Inl e, s6) \<Rightarrow> (Inl e, s6)
         | (Inr serviceInfos, s6) \<Rightarrow>
             (Inr \<lparr>pods = podInfos, services = serviceInfos\<rparr>, s6))))))"

definition listClusterDeployments ::
  "environment \<Rightarrow> system \<Rightarrow> string \<Rightarrow> string option \<Rightarrow> string option \<Rightarrow>
   (js_error + DeploymentsInfo) \<times> system" where
  "listClusterDeployments env s cname region_opt namespace =
     (case listClusterDeployments_try env s cname region_opt namespace of
        (Inr r, s1) \<Rightarrow> (Inr r, s1)
      | (Inl e, s1) \<Rightarrow>
          (Inl (Error (''Failed to list cluster deployments: '' @ error_message e)), s1))"


section \<open>Request validation and dispatch (\<open>index.ts\<close>)\<close>

text \<open>
  The raw arguments of a tool call are whatever the protocol layer parsed: \<open>undefined\<close> when
  absent, otherwise a JSON value. An object keeps its members in the order parsed; of two
  members with the same key the later one is the property.
\<close>

datatype js_value =
    JUndefined
  | JNull
  | JBoolean bool
  | JNumber rat
  | JString string
  | JArray "js_value list"
  | JObject "(string \<times> js_value) list"

fun js_typeof :: "js_value \<Rightarrow> string" where
  "js_typeof JUndefined = ''undefined''"
| "js_typeof JNull = ''object''"
| "js_typeof (JBoolean b) = ''boolean''"
| "js_typeof (JNumber n) = ''number''"
| "js_typeof (JString s) = ''string''"
| "js_typeof (JArray xs) = ''object''"
| "js_typeof (JObject kvs) = ''object''"

text \<open>
  \<^verbatim>\<open>args.key\<close> for the property names the validators read, on a value that passed
  \<^verbatim>\<open>typeof args === 'object' && args !== null\<close>: an array has none of these properties.
\<close>

fun get_prop :: "js_value \<Rightarrow> string \<Rightarrow> js_value" where
  "get_prop (JObject kvs) k = (case map_of (rev kvs) k of Some v \<Rightarrow> v | None \<Rightarrow> JUndefined)"
| "get_prop _ k = JUndefined"

fun Array_isArray :: "js_value \<Rightarrow> bool" where
  "Array_isArray (JArray xs) = True"
| "Array_isArray _ = False"

text \<open>\<^verbatim>\<open>v.every((id) => typeof id === 'string')\<close>, called on arrays only.\<close>

fun every_string :: "js_value \<Rightarrow> bool" where
  "every_string (JArray xs) = list_all (\<lambda>x. js_typeof x = ''string'') xs"
| "every_string _ = False"

definition isValidCreateClusterArgs :: "js_value \<Rightarrow> bool" where
  "isValidCreateClusterArgs args \<longleftrightarrow>
     js_typeof args = ''object'' \<and>
     args \<noteq> JNull \<and>
     js_typeof (get_prop args ''clusterName'') = ''string'' \<and>
     js_typeof (get_prop args ''region'') = ''string'' \<and>
     js_typeof (get_prop args ''kubernetesVersion'') = ''string'' \<and>
     js_typeof (get_prop args ''roleArn'') = ''string'' \<and>
     Array_isArray (get_prop args ''subnetIds'') \<and>
     every_string (get_prop args ''subnetIds'') \<and>
     (get_prop args ''securityGroupIds'' = JUndefined \<or>
      (Array_isArray (get_prop args ''securityGroupIds'') \<and>
       every_string (get_prop args ''securityGroupIds''))) \<and>
     (get_prop args ''publicAccessCidrs'' = JUndefined \<or>
      (Array_isArray (get_prop args ''publicAccessCidrs'') \<and>
       every_string (get_prop args ''publicAccessCidrs'')))"

definition isValidClusterStatusArgs :: "js_value \<Rightarrow> bool" where
  "isValidClusterStatusArgs args \<longleftrightarrow>
     js_typeof args = ''object'' \<and>
     args \<noteq> JNull \<and>
     js_typeof (get_prop args ''clusterName'') = ''string'' \<and>
     (get_prop args ''region'' = JUndefined \<or> js_typeof (get_prop args ''region'') = ''string'')"

definition isValidDeleteClusterArgs :: "js_value \<Rightarrow> bool" where
  "isValidDeleteClusterArgs args \<longleftrightarrow>
     js_typeof args = ''object'' \<and>
     args \<noteq> JNull \<and>
     js_typeof (get_prop args ''clusterName'') = ''string'' \<and>
     (get_prop args ''region'' = JUndefined \<or> js_typeof (get_prop args ''region'') = ''string'')"

definition isValidListDeploymentsArgs :: "js_value \<Rightarrow> bool" where
  "isValidListDeploymentsArgs args \<longleftrightarrow>
     js_typeof args = ''object'' \<and>
     args \<noteq> JNull \<and>
     js_typeof (get_prop args ''clusterName'') = ''string'' \<and>
     (get_prop args ''region'' = JUndefined \<or> js_typeof (get_prop args ''region'') = ''string'') \<and>
     (get_prop args ''namespace'' = JUndefined \<or>
      js_typeof (get_prop args ''namespace'') = ''string'')"

text \<open>
  A type guard changes no value: the handlers read the fields of the raw object. The readers
  below are the reads the guards have made safe (a string where a string was checked, an
  array of strings where that was checked, \<open>None\<close> for an absent optional field); they are
  left unspecified elsewhere.
\<close>

fun the_string :: "js_value \<Rightarrow> string" where
  "the_string (JString s) = s"

fun the_strings :: "js_value \<Rightarrow> string list" where
  "the_strings (JArray xs) = map the_string xs"

definition opt_string :: "js_value \<Rightarrow> string option" where
  "opt_string v = (if v = JUndefined then None else Some (the_string v))"

definition opt_strings :: "js_value \<Rightarrow> string list option" where
  "opt_strings v = (if v = JUndefined then None else Some (the_strings v))"

definition as_CreateClusterRequest :: "js_value \<Rightarrow> CreateClusterRequest" where
  "as_CreateClusterRequest args =
     \<lparr>clusterName = the_string (get_prop args ''clusterName''),
      region = the_string (get_prop args ''region''),
      kubernetesVersion = the_string (get_prop args ''kubernetesVersion''),
      roleArn = the_string (get_prop args ''roleArn''),
      subnetIds = the_strings (get_prop args ''subnetIds''),
      securityGroupIds = opt_strings (get_prop args ''securityGroupIds''),
      publicAccessCidrs = opt_strings (get_prop args ''publicAccessCidrs'')\<rparr>"

text \<open>
  The content envelope. Its text is \<^verbatim>\<open>JSON.stringify(value, null, 2)\<close> of a result; the model
  keeps the serialised value itself (for a cluster list, the members that are written).
  \<open>isError\<close> is set only on the envelope built by the dispatcher's own \<open>catch\<close>.
\<close>

datatype tool_text =
    ClustersJson "ClusterInfo_json list"
  | DetailsJson ClusterDetails
  | StatusJson OperationStatus
  | DeploymentsJson DeploymentsInfo
  | PlainText string

record tool_result =
  content_text :: tool_text
  isError :: bool

definition handleListClusters :: "environment \<Rightarrow> system \<Rightarrow> (js_error + tool_result) \<times> system" where
  "handleListClusters env s =
     (case listClusters env s of
        (Inr clusters, s1) \<Rightarrow>
          (Inr \<lparr>content_text = ClustersJson (map stringify_ClusterInfo clusters),
                isError = False\<rparr>, s1)
      | (Inl e, s1) \<Rightarrow>
          (Inl (McpError InternalError (''Failed to list clusters: '' @ error_message e)), s1))"

definition handleGetClusterStatus ::
  "environment \<Rightarrow> system \<Rightarrow> js_value \<Rightarrow> (js_error + tool_result) \<times> system" where
  "handleGetClusterStatus env s args =
     (case getClusterStatus env s (the_string (get_prop args ''clusterName''))
             (opt_string (get_prop args ''region'')) of
        (Inr clusterDetails, s1) \<Rightarrow>
          (Inr \<lparr>content_text = DetailsJson clusterDetails, isError = False\<rparr>, s1)
      | (Inl e, s1) \<Rightarrow>
          (Inl (McpError InternalError (''Failed to get cluster status: '' @ error_message e)), s1))"

definition handleCreateCluster ::
  "environment \<Rightarrow> system \<Rightarrow> js_value \<Rightarrow> (js_error + tool_result) \<times> system" where
  "handleCreateCluster env s args =
     (case createCluster env s (as_CreateClusterRequest args) of
        (Inr result, s1) \<Rightarrow> (Inr \<lparr>content_text = StatusJson result, isError = False\<rparr>, s1)
      | (Inl e, s1) \<Rightarrow>
          (Inl (McpError InternalError (''Failed to create cluster: '' @ error_message e)), s1))"

definition handleDeleteCluster ::
  "environment \<Rightarrow> system \<Rightarrow> js_value \<Rightarrow> (js_error + tool_result) \<times> system" where
  "handleDeleteCluster env s args =
     (case deleteCluster env s (the_string (get_prop args ''clusterName''))
             (opt_string (get_prop args ''region'')) of
        (Inr result, s1) \<Rightarrow> (Inr \<lparr>content_text = StatusJson result, isError = False\<rparr>, s1)
      | (Inl e, s1) \<Rightarrow>
          (Inl (McpError InternalError (''Failed to delete cluster: '' @ error_message e)), s1))"

definition handleListDeployments ::
  "environment \<Rightarrow> system \<Rightarrow> js_value \<Rightarrow> (js_error + tool_result) \<times> system" where
  "handleListDeployments env s args =
     (case listClusterDeployments env s (the_string (get_prop args ''clusterName''))
             (opt_string (get_prop args ''region'')) (opt_string (get_prop args ''namespace'')) of
        (Inr deployments, s1) \<Rightarrow>
          (Inr \<lparr>content_text = DeploymentsJson deployments, isError = False\<rparr>, s1)
      | (Inl e, s1) \<Rightarrow>
          (Inl (McpError InternalError (''Failed to list deployments: '' @ error_message e)), s1))"

text \<open>The \<open>switch\<close> of the call handler, then the handler with its \<open>catch\<close>.\<close>

definition callTool_switch ::
  "environment \<Rightarrow> system \<Rightarrow> string \<Rightarrow> js_value \<Rightarrow> (js_error + tool_result) \<times> system" where
  "callTool_switch env s name arguments =
     (if name = ''list_eks_clusters'' then handleListClusters env s
      else if name = ''get_eks_cluster_status'' then
        (if \<not> isValidClusterStatusArgs arguments
         then (Inl (McpError InvalidParams ''Invalid arguments for get_eks_cluster_status''), s)
         else handleGetClusterStatus env s arguments)
      else if name = ''create_eks_cluster'' then
        (if \<not> isValidCreateClusterArgs arguments
         then (Inl (McpError InvalidParams ''Invalid arguments for create_eks_cluster''), s)
         else handleCreateCluster env s arguments)
      else if name = ''delete_eks_cluster'' then
        (if \<not> isValidDeleteClusterArgs arguments
         then (Inl (McpError InvalidParams ''Invalid arguments for delete_eks_cluster''), s)
         else handleDeleteCluster env s arguments)
      else if name = ''list_cluster_deployments'' then
        (if \<not> isValidListDeploymentsArgs arguments
         then (Inl (McpError InvalidParams ''Invalid arguments for list_cluster_deployments''), s)
         else handleListDeployments env s arguments)
      else (Inl (McpError MethodNotFound (''Unknown tool: '' @ name)), s))"

definition callTool ::
  "environment \<Rightarrow> system \<Rightarrow> string \<Rightarrow> js_value \<Rightarrow> (js_error + tool_result) \<times> system" where
  "callTool env s name arguments =
     (case callTool_switch env s name arguments of
        (Inr r, s1) \<Rightarrow> (Inr r, s1)
      | (Inl e, s1) \<Rightarrow>
          if is_McpError e then (Inl e, s1)
          else (Inr \<lparr>content_text =
                       PlainText (''Error: '' @
                         (if e = NonError then ''Unknown error occurred'' else error_message e)),
                     isError = True\<rparr>, s1))"


section \<open>Concrete worlds\<close>

text \<open>
  A small world on which the theorems below are exercised: the control plane knows the
  clusters \<open>a\<close> and \<open>b\<close>, refuses to describe \<open>b\<close>, and accepts every create and delete; the
  cluster API server has two pods and two services in two namespaces. In \<open>down_env\<close> every
  call to the control plane and to the identity service fails.
\<close>

definition demo_cluster :: "string \<Rightarrow> Cluster" where
  "demo_cluster n =
     \<lparr>c_name = Some n, c_arn = Some (''arn:aws:eks:us-east-1:1:cluster/'' @ n),
      c_status = Some ''ACTIVE'', c_version = Some ''1.28'',
      c_endpoint = Some ''https://eks.example'', c_createdAt = Some (Some 0),
      c_roleArn = Some ''arn:aws:iam::1:role/eks'', c_resourcesVpcConfig = None,
      c_logging = None, c_platformVersion = Some ''eks.1'', c_tags = None\<rparr>"

definition demo_eks_send :: "event list \<Rightarrow> client_config \<Rightarrow> eks_command \<Rightarrow> js_error + eks_output" where
  "demo_eks_send h cfg cmd =
     (case cmd of
        ListClustersCommand \<Rightarrow> Inr \<lparr>out_clusters = Some [''a'', ''b''], out_cluster = None\<rparr>
      | DescribeClusterCommand n \<Rightarrow>
          if n = ''b'' then Inl (Error ''AccessDenied'')
          else Inr \<lparr>out_clusters = None, out_cluster = Some (demo_cluster n)\<rparr>
      | CreateClusterCommand i \<Rightarrow>
          Inr \<lparr>out_clusters = None, out_cluster = Some (demo_cluster (cc_name i))\<rparr>
      | DeleteClusterCommand n \<Rightarrow> Inr \<lparr>out_clusters = None, out_cluster = None\<rparr>)"

definition demo_pod :: "string \<Rightarrow> string \<Rightarrow> V1Pod" where
  "demo_pod n ns =
     \<lparr>pod_metadata = Some \<lparr>meta_name = Some n, meta_namespace = Some ns,
                            creationTimestamp = Some (Some 1000)\<rparr>,
      pod_spec = Some \<lparr>nodeName = Some ''node-1''\<rparr>,
      pod_status = Some \<lparr>phase = Some ''Running'',
                         containerStatuses = Some [\<lparr>ready = True, restartCount = Some 2\<rparr>]\<rparr>\<rparr>"

definition demo_service :: "string \<Rightarrow> string \<Rightarrow> V1Service" where
  "demo_service n ns =
     \<lparr>svc_metadata = Some \<lparr>meta_name = Some n, meta_namespace = Some ns,
                            creationTimestamp = None\<rparr>,
      svc_spec = Some \<lparr>spec_type = Some ''LoadBalancer'', clusterIP = Some ''10.0.0.1'',
                       externalIPs = None,
                       ports = Some [\<lparr>port = 80, nodePort = Some 30080, protocol = None\<rparr>]\<rparr>,
      svc_status = Some \<lparr>loadBalancer =
                     Some \<lparr>ingress = Some [\<lparr>ip = Some ''203.0.113.7'', hostname = None\<rparr>]\<rparr>\<rparr>\<rparr>"

definition demo_env :: environment where
  "demo_env =
     \<lparr>eks_send = demo_eks_send,
      sts_send = (\<lambda>h cfg. Inr \<lparr>UserId = Some ''AIDA'', Account = Some ''1'',
                              Arn = Some ''arn:aws:iam::1:user/dev''\<rparr>),
      listPodForAllNamespaces =
        (\<lambda>h kc. Inr [demo_pod ''web'' ''default'', demo_pod ''dns'' ''kube-system'']),
      listServiceForAllNamespaces =
        (\<lambda>h kc. Inr [demo_service ''web'' ''default'', demo_service ''dns'' ''kube-system'']),
      clock = (\<lambda>h. 183601000),
      Date_toString = (\<lambda>d. ''Thu Jan 01 1970 00:00:01 GMT+0000''),
      Date_parse = (\<lambda>t. Some 1000),
      base64_json = (\<lambda>c r t. ''e30='')\<rparr>"

definition down_env :: environment where
  "down_env =
     demo_env\<lparr>eks_send := (\<lambda>h cfg cmd. Inl (Error ''AccessDenied'')),
              sts_send := (\<lambda>h cfg. Inl (Error ''ExpiredToken''))\<rparr>"

text \<open>
  A world at one minute past the epoch in which the platform renders the first second of
  the epoch as Node does under UTC and reads it back as time value \<open>0\<close>, and a pod created
  999 milliseconds into that second.
\<close>

definition epoch_env :: environment where
  "epoch_env =
     demo_env\<lparr>clock := (\<lambda>h. 60000),
              Date_toString :=
                (\<lambda>d. ''Thu Jan 01 1970 00:00:00 GMT+0000 (Coordinated Universal Time)''),
              Date_parse := (\<lambda>t. Some 0)\<rparr>"

definition subsecond_pod :: V1Pod where
  "subsecond_pod =
     \<lparr>pod_metadata = Some \<lparr>meta_name = Some ''web'', meta_namespace = Some ''default'',
                            creationTimestamp = Some (Some 999)\<rparr>,
      pod_spec = None, pod_status = None\<rparr>"

definition demo_system :: system where
  "demo_system = EKSManager_constructor None None"


definition demo_request :: CreateClusterRequest where
  "demo_request =
     \<lparr>clusterName = ''new'', region = ''eu-west-1'', kubernetesVersion = ''1.28'',
      roleArn = ''arn:aws:iam::1:role/eks'', subnetIds = [''subnet-1'', ''subnet-2''],
      securityGroupIds = None, publicAccessCidrs = Some [''10.0.0.0/8'']\<rparr>"


text \<open>The four string members of a create call; \<open>subnetIds\<close> is added where a case needs it.\<close>

definition create_args_base :: "(string \<times> js_value) list" where
  "create_args_base =
     [(''clusterName'', JString ''new''), (''region'', JString ''eu-west-1''),
      (''kubernetesVersion'', JString ''1.28''), (''roleArn'', JString ''arn:aws:iam::1:role/eks'')]"


section \<open>Verified properties\<close>

lemma small_mod: "0 \<le> (d::int) \<Longrightarrow> 0 < b \<Longrightarrow> \<not> 1 \<le> d div b \<Longrightarrow> d mod b = d"
proof -
  assume d0: "0 \<le> d" and b: "0 < b" and n: "\<not> 1 \<le> d div b"
  have "0 \<le> d div b" using d0 b by (simp add: pos_imp_zdiv_nonneg_iff)
  with n have "d div b = 0" by linarith
  then show ?thesis using b d0 by (metis mult_zero_right add_0 mult_div_mod_eq)
qed

text \<open>
  The helper on its own: for a timestamp text whose time value is \<open>T\<close> and a current time
  \<open>now \<ge> T\<close>, the result is the whole number of days when that is at least one, otherwise
  the whole number of hours when that is at least one, otherwise the whole number of
  minutes; without a timestamp text it is \<open>unknown\<close>.
\<close>

lemma calculateAge_cascade:
  "calculateAge parse now None = ''unknown'' \<and>
   (parse ts = Some T \<and> ts \<noteq> [] \<and> T \<le> now \<longrightarrow>
      calculateAge parse now (Some ts) =
        (if 1 \<le> (now - T) div ms_per_day then show_int ((now - T) div ms_per_day) @ ''d''
         else if 1 \<le> (now - T) div ms_per_hour then show_int ((now - T) div ms_per_hour) @ ''h''
         else show_int ((now - T) div ms_per_minute) @ ''m''))"
proof -
  have unk: "calculateAge parse now None = ''unknown''"
    by (simp add: calculateAge_def)
  have main: "calculateAge parse now (Some ts) =
        (if 1 \<le> (now - T) div ms_per_day then show_int ((now - T) div ms_per_day) @ ''d''
         else if 1 \<le> (now - T) div ms_per_hour then show_int ((now - T) div ms_per_hour) @ ''h''
         else show_int ((now - T) div ms_per_minute) @ ''m'')"
    if p: "parse ts = Some T" and ne: "ts \<noteq> []" and le: "T \<le> now"
  proof -
    define d where "d = now - T"
    have d0: "0 \<le> d" using le by (simp add: d_def)
    have rem_day: "js_rem d ms_per_day = d mod ms_per_day"
      and rem_hour: "js_rem d ms_per_hour = d mod ms_per_hour"
      using d0 by (simp_all add: js_rem_def)
    have unfolded: "calculateAge parse now (Some ts) =
        (if 0 < d div ms_per_day then show_int (d div ms_per_day) @ ''d''
         else if 0 < d mod ms_per_day div ms_per_hour
              then show_int (d mod ms_per_day div ms_per_hour) @ ''h''
         else show_int (d mod ms_per_hour div ms_per_minute) @ ''m'')"
      unfolding calculateAge_def using p ne
      by (simp add: Let_def d_def[symmetric] rem_day rem_hour)
    show ?thesis
    proof (cases "1 \<le> d div ms_per_day")
      case True
      then show ?thesis unfolding unfolded d_def[symmetric] by simp
    next
      case nd: False
      have md: "d mod ms_per_day = d"
        using small_mod[OF d0 _ nd] by (simp add: ms_per_day_def)
      show ?thesis
      proof (cases "1 \<le> d div ms_per_hour")
        case True
        then show ?thesis unfolding unfolded d_def[symmetric] using nd by (simp add: md)
      next
        case nh: False
        have mh: "d mod ms_per_hour = d"
          using small_mod[OF d0 _ nh] by (simp add: ms_per_hour_def)
        show ?thesis unfolding unfolded d_def[symmetric] using nd nh by (simp add: md mh)
      qed
    qed
  qed
  from unk main show ?thesis by blast
qed

subsection \<open>The age of an object\<close>

lemma calculateAge_now_valid:
  assumes r: "renders_to_second env T" and le: "T \<le> clock env (history s)"
  shows "fst (calculateAge_now env s (Some (Date_toString env (Some T)))) =
           age_in_largest_unit (clock env (history s) - T div 1000 * 1000)"
proof -
  let ?ts = "Date_toString env (Some T)"
  have ne: "?ts \<noteq> []" and p: "Date_parse env ?ts = Some (T div 1000 * 1000)"
    using r by (simp_all add: renders_to_second_def)
  have "T div 1000 * 1000 \<le> T"
    by (metis add.commute div_mult_mod_eq le_add_same_cancel1 pos_mod_sign zero_less_numeral)
  with le have le': "T div 1000 * 1000 \<le> clock env (history s)" by simp
  from calculateAge_cascade [of "Date_parse env" "clock env (history s)" ?ts "T div 1000 * 1000"]
    p ne le'
  show ?thesis by (simp add: calculateAge_now_def age_in_largest_unit_def)
qed

lemma calculateAge_now_missing: "fst (calculateAge_now env s None) = ''unknown''"
  by (simp add: calculateAge_now_def)

lemma project_pod_age:
  "pi_age (fst (project_pod env s pod)) =
     fst (calculateAge_now env s (timestamp_string env (pod_metadata pod)))"
  by (simp add: project_pod_def Let_def case_prod_beta)

lemma project_service_age:
  "project_service env s svc = (Inr i, s') \<Longrightarrow>
   si_age i = fst (calculateAge_now env s (timestamp_string env (svc_metadata svc)))"
  by (auto simp: project_service_def Let_def case_prod_beta split: sum.splits)

lemma whole_second: "1000 dvd (T::int) \<Longrightarrow> T div 1000 * 1000 = T"
  by simp

text \<open>
  C7, as the code has it. The age of a pod or a service is computed from its creation
  timestamp after that has passed through its textual rendering, which has no
  milliseconds. For an object whose creation timestamp has time value \<open>T\<close>, on a platform
  that renders \<open>T\<close> to the second, and a current time \<open>now \<ge> T\<close> (the clock as read for that
  object), the rendered age is the specification's age of \<open>now\<close> minus \<open>T\<close> rounded down to
  the whole second: days when at least one, else hours when at least one, else minutes,
  possibly \<open>0m\<close>. For a timestamp that is a whole number of seconds this is the age of
  \<open>now - T\<close>. An object without a creation timestamp renders \<open>unknown\<close>. For a service the
  statement is about the entry that \<open>project_service\<close> returns.
\<close>

theorem rendered_age_of_object:
  "(Option.bind (pod_metadata pod) creationTimestamp = None \<longrightarrow>
      pi_age (fst (project_pod env s pod)) = ''unknown'') \<and>
   (Option.bind (svc_metadata svc) creationTimestamp = None \<and>
    project_service env s svc = (Inr i, s') \<longrightarrow> si_age i = ''unknown'') \<and>
   (renders_to_second env T \<and> T \<le> clock env (history s) \<longrightarrow>
      (Option.bind (pod_metadata pod) creationTimestamp = Some (Some T) \<longrightarrow>
         pi_age (fst (project_pod env s pod)) =
           age_in_largest_unit (clock env (history s) - T div 1000 * 1000) \<and>
         (1000 dvd T \<longrightarrow>
            pi_age (fst (project_pod env s pod)) =
              age_in_largest_unit (clock env (history s) - T))) \<and>
      (Option.bind (svc_metadata svc) creationTimestamp = Some (Some T) \<and>
       project_service env s svc = (Inr i, s') \<longrightarrow>
         si_age i = age_in_largest_unit (clock env (history s) - T div 1000 * 1000) \<and>
         (1000 dvd T \<longrightarrow> si_age i = age_in_largest_unit (clock env (history s) - T))))"
proof (intro conjI impI)
  assume "Option.bind (pod_metadata pod) creationTimestamp = None"
  then show "pi_age (fst (project_pod env s pod)) = ''unknown''"
    by (simp add: project_pod_age timestamp_string_def calculateAge_now_missing)
next
  assume "Option.bind (svc_metadata svc) creationTimestamp = None \<and>
    project_service env s svc = (Inr i, s')"
  then show "si_age i = ''unknown''"
    using project_service_age [of env s svc i s']
    by (simp add: timestamp_string_def calculateAge_now_missing)
next
  assume h: "renders_to_second env T \<and> T \<le> clock env (history s)"
    and t: "Option.bind (pod_metadata pod) creationTimestamp = Some (Some T)"
  from h have a: "fst (calculateAge_now env s (Some (Date_toString env (Some T)))) =
           age_in_largest_unit (clock env (history s) - T div 1000 * 1000)"
    using calculateAge_now_valid by blast
  show p: "pi_age (fst (project_pod env s pod)) =
           age_in_largest_unit (clock env (history s) - T div 1000 * 1000)"
    using t a by (simp add: project_pod_age timestamp_string_def)
  assume "1000 dvd T"
  then show "pi_age (fst (project_pod env s pod)) =
              age_in_largest_unit (clock env (history s) - T)"
    using p by (simp add: whole_second)
next
  assume h: "renders_to_second env T \<and> T \<le> clock env (history s)"
    and t: "Option.bind (svc_metadata svc) creationTimestamp = Some (Some T) \<and>
       project_service env s svc = (Inr i, s')"
  from h have a: "fst (calculateAge_now env s (Some (Date_toString env (Some T)))) =
           age_in_largest_unit (clock env (history s) - T div 1000 * 1000)"
    using calculateAge_now_valid by blast
  show p: "si_age i = age_in_largest_unit (clock env (history s) - T div 1000 * 1000)"
    using t a project_service_age [of env s svc i s'] by (simp add: timestamp_string_def)
  assume "1000 dvd T"
  then show "si_age i = age_in_largest_unit (clock env (history s) - T)"
    using p by (simp add: whole_second)
qed

lemma epoch_env_simps:
  "clock epoch_env = (\<lambda>h. 60000)"
  "Date_toString epoch_env =
     (\<lambda>d. ''Thu Jan 01 1970 00:00:00 GMT+0000 (Coordinated Universal Time)'')"
  "Date_parse epoch_env = (\<lambda>t. Some 0)"
  by (simp_all add: epoch_env_def)

lemma demo_env_time:
  "clock demo_env = (\<lambda>h. 183601000)"
  "Date_toString demo_env = (\<lambda>d. ''Thu Jan 01 1970 00:00:01 GMT+0000'')"
  "Date_parse demo_env = (\<lambda>t. Some 1000)"
  by (simp_all add: demo_env_def)

lemma show_int_digit: "0 \<le> n \<Longrightarrow> n < 10 \<Longrightarrow> show_int n = [digit_char (nat n)]"
  by (simp add: show_int_def show_nat.simps)

text \<open>
  In the concrete world a pod and a service created one second into the epoch are two days
  and three hours old and render \<open>2d\<close>; without a timestamp they render \<open>unknown\<close>.
\<close>

theorem rendered_age_of_object_witness:
  "renders_to_second demo_env 1000 \<and> 1000 \<le> clock demo_env (history demo_system) \<and>
   (1000::int) dvd 1000 \<and>
   Option.bind (pod_metadata (demo_pod ''web'' ''default'')) creationTimestamp =
     Some (Some 1000) \<and>
   pi_age (fst (project_pod demo_env demo_system (demo_pod ''web'' ''default''))) = ''2d'' \<and>
   Option.bind (pod_metadata ((demo_pod ''web'' ''default'')\<lparr>pod_metadata := None\<rparr>))
     creationTimestamp = None \<and>
   pi_age (fst (project_pod demo_env demo_system
                  ((demo_pod ''web'' ''default'')\<lparr>pod_metadata := None\<rparr>))) = ''unknown'' \<and>
   (\<exists>i s'. project_service demo_env demo_system (demo_service ''web'' ''default'') = (Inr i, s') \<and>
      Option.bind (svc_metadata (demo_service ''web'' ''default'')) creationTimestamp = None \<and>
      si_age i = ''unknown'') \<and>
   (\<exists>i s'. project_service demo_env demo_system
               ((demo_service ''web'' ''default'')
                  \<lparr>svc_metadata := pod_metadata (demo_pod ''web'' ''default'')\<rparr>) = (Inr i, s') \<and>
      Option.bind (svc_metadata ((demo_service ''web'' ''default'')
                     \<lparr>svc_metadata := pod_metadata (demo_pod ''web'' ''default'')\<rparr>))
        creationTimestamp = Some (Some 1000) \<and>
      si_age i = ''2d'')"
proof -
  let ?svc = "demo_service ''web'' ''default''"
  let ?timed = "?svc\<lparr>svc_metadata := pod_metadata (demo_pod ''web'' ''default'')\<rparr>"
  obtain i s' where ps: "project_service demo_env demo_system ?svc = (Inr i, s')"
    by (simp add: project_service_def getExternalIP_def demo_service_def Let_def case_prod_beta)
  obtain j s'' where pt: "project_service demo_env demo_system ?timed = (Inr j, s'')"
    by (simp add: project_service_def getExternalIP_def demo_service_def Let_def case_prod_beta)
  have sm: "Option.bind (svc_metadata ?svc) creationTimestamp = None"
    by (simp add: demo_service_def)
  have st: "Option.bind (svc_metadata ?timed) creationTimestamp = Some (Some 1000)"
    by (simp add: demo_pod_def)
  let ?pod = "demo_pod ''web'' ''default''"
  have r: "renders_to_second demo_env 1000"
    by (simp add: renders_to_second_def demo_env_time)
  have le: "1000 \<le> clock demo_env (history demo_system)"
    by (simp add: demo_env_time)
  have t: "Option.bind (pod_metadata ?pod) creationTimestamp = Some (Some 1000)"
    by (simp add: demo_pod_def)
  have m: "Option.bind (pod_metadata (?pod\<lparr>pod_metadata := None\<rparr>)) creationTimestamp = None"
    by simp
  have a: "age_in_largest_unit (clock demo_env (history demo_system) - 1000) = ''2d''"
    by (simp add: age_in_largest_unit_def demo_env_time ms_per_day_def show_int_digit
          digit_char_def)
  from rendered_age_of_object
         [where env = demo_env and s = demo_system and pod = ?pod and T = 1000] r le t
  have "pi_age (fst (project_pod demo_env demo_system ?pod)) =
          age_in_largest_unit (clock demo_env (history demo_system) - 1000)"
    by simp
  with a have p: "pi_age (fst (project_pod demo_env demo_system ?pod)) = ''2d''" by simp
  from rendered_age_of_object
         [where env = demo_env and s = demo_system and pod = "?pod\<lparr>pod_metadata := None\<rparr>"] m
  have u: "pi_age (fst (project_pod demo_env demo_system (?pod\<lparr>pod_metadata := None\<rparr>))) =
           ''unknown''"
    by blast
  from rendered_age_of_object
         [where env = demo_env and s = demo_system and svc = ?svc and i = i and s' = s'] ps sm
  have su: "si_age i = ''unknown''" by blast
  from rendered_age_of_object
         [where env = demo_env and s = demo_system and svc = ?timed and i = j and s' = s''
            and T = 1000] r le pt st
  have "si_age j = age_in_largest_unit (clock demo_env (history demo_system) - 1000)"
    by simp
  with a have sd: "si_age j = ''2d''" by simp
  have e1: "\<exists>i s'. project_service demo_env demo_system ?svc = (Inr i, s') \<and>
      Option.bind (svc_metadata ?svc) creationTimestamp = None \<and> si_age i = ''unknown''"
    using ps sm su by blast
  have e2: "\<exists>i s'. project_service demo_env demo_system ?timed = (Inr i, s') \<and>
      Option.bind (svc_metadata ?timed) creationTimestamp = Some (Some 1000) \<and> si_age i = ''2d''"
    using pt st sd by blast
  from r le t p m u e1 e2 show ?thesis by simp
qed

text \<open>
  C7 as stated takes the age from \<open>now - T\<close>. A pod created 999 milliseconds into the epoch
  is 59001 milliseconds old at one minute past the epoch, which is no whole minute, hour or
  day, so the claim gives \<open>0m\<close>; the timestamp arrives as time value \<open>0\<close> and the pod renders
  \<open>1m\<close>.
\<close>

theorem subsecond_timestamp_age:
  "renders_to_second epoch_env 999 \<and> 999 \<le> clock epoch_env (history demo_system) \<and>
   Option.bind (pod_metadata subsecond_pod) creationTimestamp = Some (Some 999) \<and>
   (clock epoch_env (history demo_system) - 999) div ms_per_day = 0 \<and>
   (clock epoch_env (history demo_system) - 999) div ms_per_hour = 0 \<and>
   (clock epoch_env (history demo_system) - 999) div ms_per_minute = 0 \<and>
   age_in_largest_unit (clock epoch_env (history demo_system) - 999) = ''0m'' \<and>
   pi_age (fst (project_pod epoch_env demo_system subsecond_pod)) = ''1m''"
proof -
  have a: "pi_age (fst (project_pod epoch_env demo_system subsecond_pod)) = ''1m''"
    by (simp add: project_pod_def Let_def case_prod_beta timestamp_string_def subsecond_pod_def
          calculateAge_now_def calculateAge_def epoch_env_simps js_rem_def
          ms_per_day_def ms_per_hour_def ms_per_minute_def show_int_digit digit_char_def)
  have b: "age_in_largest_unit (clock epoch_env (history demo_system) - 999) = ''0m''"
    by (simp add: age_in_largest_unit_def epoch_env_simps ms_per_day_def ms_per_hour_def
          ms_per_minute_def show_int_digit digit_char_def)
  have c: "renders_to_second epoch_env 999"
    by (simp add: renders_to_second_def epoch_env_simps)
  from a b c show ?thesis
    by (simp add: epoch_env_simps subsecond_pod_def ms_per_day_def ms_per_hour_def
          ms_per_minute_def)
qed

subsection \<open>Facts about the concrete worlds and the control-plane send\<close>

lemma demo_system_simps:
  "eksClient demo_system = \<lparr>cfg_region = ''us-east-1'', cfg_credentials = None\<rparr>"
  "stsClient demo_system = \<lparr>cfg_region = ''us-east-1'', cfg_credentials = None\<rparr>"
  "history demo_system = []"
  by (simp_all add: demo_system_def EKSManager_constructor_def or_str_def Let_def)

lemma send_eks_history:
  "history (snd (send_eks env s cmd)) = history s @ [EksSend (eksClient s) cmd]"
  by (simp add: send_eks_def)

lemma send_eks_client: "eksClient (snd (send_eks env s cmd)) = eksClient s"
  by (simp add: send_eks_def)

lemma send_eks_fst: "fst (send_eks env s cmd) = eks_send env (history s) (eksClient s) cmd"
  by (simp add: send_eks_def)

lemma createCluster_try_snd:
  "snd (createCluster_try env s request) =
     snd (send_eks env (s\<lparr>eksClient := new_EKSClient (region request)\<rparr>)
            (CreateClusterCommand (create_command_input request)))"
  unfolding createCluster_try_def Let_def
  by (simp add: config_region_def split: prod.splits sum.splits option.splits)

lemma createCluster_snd:
  "snd (createCluster env s request) = snd (createCluster_try env s request)"
  unfolding createCluster_def by (simp split: prod.splits sum.splits)

subsection \<open>The create command\<close>

text \<open>
  C1. Whatever the request and the state of the server, \<open>createCluster\<close> issues exactly one
  control-plane request, the create command built from the request. In that command private
  and public endpoint access are both enabled, cluster logging is one enabled entry for the
  five log types \<open>api\<close>, \<open>audit\<close>, \<open>authenticator\<close>, \<open>controllerManager\<close> and \<open>scheduler\<close>, and the
  public-access CIDR list is the request's list when the request has one and
  \<open>[0.0.0.0/0]\<close> when it has none.
\<close>

theorem createCluster_command:
  "history (snd (createCluster env s request)) =
     history s @ [EksSend (eksClient (snd (createCluster env s request)))
                    (CreateClusterCommand (create_command_input request))] \<and>
   endpointPrivateAccess (resourcesVpcConfig (create_command_input request)) \<and>
   endpointPublicAccess (resourcesVpcConfig (create_command_input request)) \<and>
   logging_clusterLogging (create_command_input request) =
     [\<lparr>rq_types = [''api'', ''audit'', ''authenticator'', ''controllerManager'', ''scheduler''],
       rq_enabled = True\<rparr>] \<and>
   (\<forall>cidrs. publicAccessCidrs request = Some cidrs \<longrightarrow>
      rq_publicAccessCidrs (resourcesVpcConfig (create_command_input request)) = cidrs) \<and>
   (publicAccessCidrs request = None \<longrightarrow>
      rq_publicAccessCidrs (resourcesVpcConfig (create_command_input request)) = [''0.0.0.0/0''])"
proof -
  have h: "history (snd (createCluster env s request)) =
     history s @ [EksSend (eksClient (snd (createCluster env s request)))
                    (CreateClusterCommand (create_command_input request))]"
    by (simp add: createCluster_snd createCluster_try_snd send_eks_history send_eks_client)
  show ?thesis
    using h by (simp add: create_command_input_def or_list_def)
qed

text \<open>
  A request carrying \<open>[10.0.0.0/8]\<close> passes it through, the same request without the field
  gets the default, and the create command is the only request sent.
\<close>

theorem createCluster_command_witness:
  "publicAccessCidrs demo_request = Some [''10.0.0.0/8''] \<and>
   rq_publicAccessCidrs (resourcesVpcConfig (create_command_input demo_request)) =
     [''10.0.0.0/8''] \<and>
   publicAccessCidrs (demo_request\<lparr>publicAccessCidrs := None\<rparr>) = None \<and>
   rq_publicAccessCidrs
     (resourcesVpcConfig (create_command_input (demo_request\<lparr>publicAccessCidrs := None\<rparr>))) =
     [''0.0.0.0/0''] \<and>
   history (snd (createCluster demo_env demo_system demo_request)) =
     [EksSend (new_EKSClient ''eu-west-1'')
        (CreateClusterCommand (create_command_input demo_request))]"
proof -
  have a: "publicAccessCidrs demo_request = Some [''10.0.0.0/8'']"
    by (simp add: demo_request_def)
  have b: "publicAccessCidrs (demo_request\<lparr>publicAccessCidrs := None\<rparr>) = None"
    by simp
  have c: "eksClient (snd (createCluster demo_env demo_system demo_request)) =
           new_EKSClient ''eu-west-1''"
    by (simp add: createCluster_snd createCluster_try_snd send_eks_client demo_request_def
          demo_system_simps)
  have d: "history demo_system = []"
    by (simp add: demo_system_simps)
  show ?thesis
    using createCluster_command [of demo_env demo_system demo_request]
      createCluster_command [of demo_env demo_system "demo_request\<lparr>publicAccessCidrs := None\<rparr>"]
      a b c d by simp
qed

subsection \<open>The credential bridge\<close>

text \<open>
  C6. Building the session starts with the identity check: the first thing
  \<open>configureEKSAuth\<close> does is the request to the identity service. When that request fails,
  nothing else happens (no clock read, no token built), and the build fails with the
  authentication-configuration error, so there is no session to carry a token. When it
  succeeds, one token is built afterwards and it is the token of the session's user.
\<close>

theorem configureEKSAuth_identity_first:
  "\<exists>rest. history (snd (configureEKSAuth env s clusterDetails rgn)) =
            history s @ StsSend (stsClient s) # rest \<and>
     (\<forall>e. sts_send env (history s) (stsClient s) = Inl e \<longrightarrow>
        rest = [] \<and>
        fst (configureEKSAuth env s clusterDetails rgn) =
          Inl (Error (''Failed to configure EKS authentication: '' @
                      ''Failed to get caller identity: '' @ error_message e))) \<and>
     (\<forall>identity. sts_send env (history s) (stsClient s) = Inr identity \<longrightarrow>
        (\<exists>token kc. rest = [ClockRead, TokenGenerated token] \<and>
           fst (configureEKSAuth env s clusterDetails rgn) = Inr kc \<and>
           map ku_token (kc_users kc) = [token]))"
proof (cases "sts_send env (history s) (stsClient s)")
  case (Inl e)
  then show ?thesis
    by (simp add: configureEKSAuth_def getCallerIdentity_def Let_def)
next
  case (Inr identity)
  then show ?thesis
    by (simp add: configureEKSAuth_def getCallerIdentity_def generateEKSToken_def Let_def)
qed

text \<open>
  With expired credentials the build ends after the identity request, with the error and
  an otherwise untouched server state.
\<close>

theorem configureEKSAuth_identity_first_witness:
  "sts_send down_env (history demo_system) (stsClient demo_system) =
     Inl (Error ''ExpiredToken'') \<and>
   configureEKSAuth down_env demo_system (mapClusterToDetails (demo_cluster ''a'')) ''us-east-1'' =
     (Inl (Error
        ''Failed to configure EKS authentication: Failed to get caller identity: ExpiredToken''),
      demo_system\<lparr>history := [StsSend (stsClient demo_system)]\<rparr>)"
proof -
  let ?run = "configureEKSAuth down_env demo_system (mapClusterToDetails (demo_cluster ''a''))
                ''us-east-1''"
  have f: "sts_send down_env (history demo_system) (stsClient demo_system) =
           Inl (Error ''ExpiredToken'')"
    by (simp add: down_env_def)
  have h: "history demo_system = []"
    by (simp add: demo_system_simps)
  have c: "eksClient (snd ?run) = eksClient demo_system \<and>
           stsClient (snd ?run) = stsClient demo_system"
    by (simp add: configureEKSAuth_def getCallerIdentity_def Let_def f)
  obtain rest where r:
    "history (snd ?run) = history demo_system @ StsSend (stsClient demo_system) # rest"
    "rest = []"
    "fst ?run = Inl (Error (''Failed to configure EKS authentication: '' @
                      ''Failed to get caller identity: '' @ error_message (Error ''ExpiredToken'')))"
    using configureEKSAuth_identity_first
            [of down_env demo_system "mapClusterToDetails (demo_cluster ''a'')" "''us-east-1''"] f
    by blast
  have "snd ?run = demo_system\<lparr>history := [StsSend (stsClient demo_system)]\<rparr>"
    using r(1,2) c h by (intro system.equality) simp_all
  with r(3) f show ?thesis by (simp add: prod_eq_iff)
qed

subsection \<open>The external address of a service\<close>

text \<open>
  Wherever the ingress list is absent or has a first entry, \<open>getExternalIP\<close> returns a string:
  the first ingress's address, else its host name, else \<open><pending>\<close>; without an ingress list
  the comma-joined external addresses of the spec when there are any, else \<open><none>\<close>.
\<close>

lemma getExternalIP_defined:
  "Option.bind (Option.bind (svc_status service) loadBalancer) ingress \<noteq> Some [] \<Longrightarrow>
   getExternalIP service =
     Inr (case Option.bind (Option.bind (svc_status service) loadBalancer) ingress of
            Some ing \<Rightarrow> or_str (ip (hd ing)) (or_str (hostname (hd ing)) ''<pending>'')
          | None \<Rightarrow>
              (case Option.bind (svc_spec service) externalIPs of
                 None \<Rightarrow> ''<none>''
               | Some es \<Rightarrow> if es = [] then ''<none>'' else join_comma es))"
  by (auto simp: getExternalIP_def split: option.splits list.splits)

text \<open>
  C8 says that the projection yields one of its strings for every service, and
  \<open><pending>\<close> for a load balancer that has no ingress yet. For a service whose load-balancer
  status has an empty ingress list the function yields no string: it throws a \<open>TypeError\<close>.
\<close>

theorem getExternalIP_empty_ingress_throws:
  "getExternalIP \<lparr>svc_metadata = None, svc_spec = None,
                  svc_status = Some \<lparr>loadBalancer = Some \<lparr>ingress = Some []\<rparr>\<rparr>\<rparr> =
     Inl (TypeError ''Cannot read properties of undefined (reading 'ip')'')"
  by (simp add: getExternalIP_def)

subsection \<open>Listing clusters\<close>

lemma describe_all_length: "length (fst (describe_all env cfg h ns)) = length ns"
  by (induction ns arbitrary: h) (simp_all add: Let_def case_prod_beta)

lemma describe_all_history: "snd (describe_all env cfg h ns) = h @ describe_requests cfg ns"
  by (induction ns arbitrary: h) (simp_all add: Let_def describe_requests_def case_prod_beta)

lemma describe_all_nth:
  "i < length ns \<Longrightarrow>
   fst (describe_all env cfg h ns) ! i =
     describe_entry env cfg (h @ describe_requests cfg (take i ns)) (ns ! i)"
proof (induction ns arbitrary: h i)
  case Nil
  then show ?case by simp
next
  case (Cons n ns)
  show ?case
  proof (cases i)
    case 0
    then show ?thesis by (simp add: Let_def describe_requests_def case_prod_beta)
  next
    case (Suc j)
    with Cons.prems have j: "j < length ns" by simp
    have "fst (describe_all env cfg h (n # ns)) ! i =
          fst (describe_all env cfg (h @ [EksSend cfg (DescribeClusterCommand n)]) ns) ! j"
      using Suc by (simp add: Let_def case_prod_beta)
    also have "\<dots> = describe_entry env cfg
                      ((h @ [EksSend cfg (DescribeClusterCommand n)]) @ describe_requests cfg (take j ns))
                      (ns ! j)"
      using Cons.IH [OF j] .
    finally show ?thesis using Suc by (simp add: describe_requests_def)
  qed
qed

lemma listClusters_names:
  assumes "eks_send env (history s) (eksClient s) ListClustersCommand = Inr response"
      and "out_clusters response = Some names"
  shows "listClusters env s =
           (Inr (fst (describe_all env (eksClient s)
                        (history s @ [EksSend (eksClient s) ListClustersCommand]) names)),
            s\<lparr>history := history s @ [EksSend (eksClient s) ListClustersCommand] @
                           describe_requests (eksClient s) names\<rparr>)"
  using assms
  by (simp add: listClusters_def send_eks_def Let_def describe_all_history case_prod_beta)

text \<open>
  When the control plane returns a list of \<open>N\<close> cluster names, \<open>listClusters\<close> returns \<open>N\<close>
  entries in the order of the names, whatever the detail fetches do. The detail request for
  the \<open>i\<close>-th name follows the list request and the detail requests for the names before
  it. Where it fails, or answers without a cluster, the entry keeps the name and has status
  \<open>UNKNOWN\<close>; otherwise the entry carries the name and the status of the cluster in the
  answer. The region member of every entry is what the client's configuration holds, the
  provider. No detail failure makes the call fail.
\<close>

lemma listClusters_entries:
  assumes "eks_send env (history s) (eksClient s) ListClustersCommand = Inr response"
      and "out_clusters response = Some names"
  shows "\<exists>infos. fst (listClusters env s) = Inr infos \<and> length infos = length names \<and>
     (\<forall>i < length names.
        (case eks_send env
                (history s @ EksSend (eksClient s) ListClustersCommand #
                   describe_requests (eksClient s) (take i names))
                (eksClient s) (DescribeClusterCommand (names ! i)) of
           Inl e \<Rightarrow>
             infos ! i = \<lparr>ci_name = Some (names ! i), ci_region = config_region (eksClient s),
                          ci_status = Some ''UNKNOWN''\<rparr>
         | Inr detail \<Rightarrow>
             (case out_cluster detail of
                None \<Rightarrow>
                  infos ! i = \<lparr>ci_name = Some (names ! i),
                               ci_region = config_region (eksClient s),
                               ci_status = Some ''UNKNOWN''\<rparr>
              | Some cluster \<Rightarrow>
                  infos ! i = \<lparr>ci_name = c_name cluster,
                               ci_region = config_region (eksClient s),
                               ci_status = c_status cluster\<rparr>)))"
proof -
  let ?h = "history s @ [EksSend (eksClient s) ListClustersCommand]"
  let ?infos = "fst (describe_all env (eksClient s) ?h names)"
  have res: "fst (listClusters env s) = Inr ?infos"
    using listClusters_names [OF assms] by simp
  have len: "length ?infos = length names"
    by (rule describe_all_length)
  have nth: "?infos ! i = describe_entry env (eksClient s)
               (history s @ EksSend (eksClient s) ListClustersCommand #
                  describe_requests (eksClient s) (take i names)) (names ! i)"
    if "i < length names" for i
    using describe_all_nth [OF that, of env "eksClient s" ?h] by simp
  have each: "case eks_send env
                (history s @ EksSend (eksClient s) ListClustersCommand #
                   describe_requests (eksClient s) (take i names))
                (eksClient s) (DescribeClusterCommand (names ! i)) of
           Inl e \<Rightarrow>
             ?infos ! i = \<lparr>ci_name = Some (names ! i), ci_region = config_region (eksClient s),
                          ci_status = Some ''UNKNOWN''\<rparr>
         | Inr detail \<Rightarrow>
             (case out_cluster detail of
                None \<Rightarrow>
                  ?infos ! i = \<lparr>ci_name = Some (names ! i),
                               ci_region = config_region (eksClient s),
                               ci_status = Some ''UNKNOWN''\<rparr>
              | Some cluster \<Rightarrow>
                  ?infos ! i = \<lparr>ci_name = c_name cluster,
                               ci_region = config_region (eksClient s),
                               ci_status = c_status cluster\<rparr>)"
    if "i < length names" for i
    using that by (simp add: nth describe_entry_def Let_def split: sum.splits option.splits)
  from res len each show ?thesis by blast
qed

lemma demo_env_simps:
  "eks_send demo_env = demo_eks_send"
  by (simp add: demo_env_def)

lemma listClusters_demo:
  "fst (listClusters demo_env demo_system) =
     Inr [\<lparr>ci_name = Some ''a'', ci_region = RegionProvider ''us-east-1'',
           ci_status = Some ''ACTIVE''\<rparr>,
          \<lparr>ci_name = Some ''b'', ci_region = RegionProvider ''us-east-1'',
           ci_status = Some ''UNKNOWN''\<rparr>]"
proof -
  have l: "eks_send demo_env (history demo_system) (eksClient demo_system) ListClustersCommand =
     Inr \<lparr>out_clusters = Some [''a'', ''b''], out_cluster = None\<rparr>"
    by (simp add: demo_env_simps demo_eks_send_def)
  show ?thesis
    using listClusters_names [OF l]
    by (simp add: Let_def describe_entry_def demo_env_simps demo_eks_send_def demo_cluster_def
          demo_system_simps config_region_def)
qed

text \<open>
  C3 says that a failing entry keeps its name and its region. In the concrete world the
  names are \<open>a\<close> and \<open>b\<close> and describing \<open>b\<close> is refused. The call returns both entries and
  \<open>b\<close> has status \<open>UNKNOWN\<close> and its name, but its region member is the provider function
  of the client and no region string, and the tool's answer for \<open>list_eks_clusters\<close> has no
  region in any entry.
\<close>

theorem listClusters_entry_has_no_region_string:
  "(\<exists>infos. fst (listClusters demo_env demo_system) = Inr infos \<and> length infos = 2 \<and>
      ci_name (infos ! 1) = Some ''b'' \<and> ci_status (infos ! 1) = Some ''UNKNOWN'' \<and>
      ci_region (infos ! 1) = RegionProvider ''us-east-1'' \<and>
      ci_region (infos ! 1) \<noteq> RegionString ''us-east-1'') \<and>
   fst (callTool demo_env demo_system ''list_eks_clusters'' JUndefined) =
     Inr \<lparr>content_text =
            ClustersJson
              [\<lparr>json_name = Some ''a'', json_region = None, json_status = Some ''ACTIVE''\<rparr>,
               \<lparr>json_name = Some ''b'', json_region = None, json_status = Some ''UNKNOWN''\<rparr>],
          isError = False\<rparr>"
proof -
  have "fst (callTool demo_env demo_system ''list_eks_clusters'' JUndefined) =
     Inr \<lparr>content_text =
            ClustersJson
              [\<lparr>json_name = Some ''a'', json_region = None, json_status = Some ''ACTIVE''\<rparr>,
               \<lparr>json_name = Some ''b'', json_region = None, json_status = Some ''UNKNOWN''\<rparr>],
          isError = False\<rparr>"
    using listClusters_demo
    by (cases "listClusters demo_env demo_system")
       (simp add: callTool_def callTool_switch_def handleListClusters_def
          stringify_ClusterInfo_def)
  then show ?thesis using listClusters_demo by simp
qed

subsection \<open>Failures of the control plane\<close>




lemma deleteCluster_fst:
  "fst (deleteCluster env s name region_opt) =
     (case eks_send env (history s) (eksClient (update_region_if_provided region_opt s))
             (DeleteClusterCommand name) of
        Inl e \<Rightarrow> Inr \<lparr>os_status = FAILURE,
                      os_message = ''Failed to delete cluster: '' @ error_message e,
                      os_clusterDetails = None\<rparr>
      | Inr response \<Rightarrow>
          Inr \<lparr>os_status = SUCCESS,
               os_message = ''Cluster '' @ name @ '' deletion initiated successfully'',
               os_clusterDetails = None\<rparr>)"
proof -
  have h: "history (update_region_if_provided region_opt s) = history s"
    by (simp add: update_region_if_provided_def split: option.splits)
  show ?thesis
    by (simp add: deleteCluster_def deleteCluster_try_def send_eks_def Let_def h
           split: sum.splits)
qed

lemma update_region_history: "history (update_region_if_provided region_opt s) = history s"
  by (simp add: update_region_if_provided_def split: option.splits)

lemma getClusterStatus_fst:
  "fst (getClusterStatus env s name region_opt) =
     (case eks_send env (history s) (eksClient (update_region_if_provided region_opt s))
             (DescribeClusterCommand name) of
        Inl e \<Rightarrow> Inl (Error (''Failed to get cluster status: '' @ error_message e))
      | Inr response \<Rightarrow>
          (case out_cluster response of
             None \<Rightarrow> Inl (Error (''Failed to get cluster status: '' @
                                  ''Cluster '' @ name @ '' not found''))
           | Some cluster \<Rightarrow> Inr (mapClusterToDetails cluster)))"
  by (simp add: getClusterStatus_def send_eks_def Let_def update_region_history
           split: sum.splits option.splits)

lemma getClusterStatus_snd:
  "snd (getClusterStatus env s name region_opt) =
     (update_region_if_provided region_opt s)
       \<lparr>history := history s @
          [EksSend (eksClient (update_region_if_provided region_opt s))
             (DescribeClusterCommand name)]\<rparr>"
  by (simp add: getClusterStatus_def send_eks_def Let_def update_region_history
           split: sum.splits option.splits)

lemma deleteCluster_snd:
  "snd (deleteCluster env s name region_opt) =
     (update_region_if_provided region_opt s)
       \<lparr>history := history s @
          [EksSend (eksClient (update_region_if_provided region_opt s))
             (DeleteClusterCommand name)]\<rparr>"
  by (simp add: deleteCluster_def deleteCluster_try_def send_eks_def Let_def update_region_history
           split: sum.splits option.splits)







subsection \<open>Region switches\<close>












subsection \<open>Validation of the cluster-name tools\<close>

lemma typeof_string_iff: "js_typeof v = ''string'' \<longleftrightarrow> (\<exists>s. v = JString s)"
  by (cases v) simp_all

lemma string_array_iff:
  "Array_isArray v \<and> every_string v \<longleftrightarrow> (\<exists>ids. v = JArray (map JString ids))"
proof (cases v)
  case (JArray xs)
  have fwd: "list_all (\<lambda>x. js_typeof x = ''string'') xs \<Longrightarrow> xs = map JString (map the_string xs)"
    by (induction xs) (auto simp: typeof_string_iff)
  have bwd: "list_all (\<lambda>x. js_typeof x = ''string'') (map JString ids)" for ids
    by (simp add: list_all_iff)
  have "list_all (\<lambda>x. js_typeof x = ''string'') xs \<longleftrightarrow> (\<exists>ids. xs = map JString ids)"
  proof
    assume "list_all (\<lambda>x. js_typeof x = ''string'') xs"
    from fwd [OF this] show "\<exists>ids. xs = map JString ids" by (rule exI)
  next
    assume "\<exists>ids. xs = map JString ids"
    then show "list_all (\<lambda>x. js_typeof x = ''string'') xs" using bwd by auto
  qed
  with JArray show ?thesis by simp
qed simp_all

lemma object_of_string_prop: "get_prop args k = JString n \<Longrightarrow> js_typeof args = ''object'' \<and> args \<noteq> JNull"
  by (cases args) simp_all

lemma status_args_valid_iff:
  "isValidClusterStatusArgs args \<longleftrightarrow>
     (\<exists>n. get_prop args ''clusterName'' = JString n) \<and>
     (get_prop args ''region'' = JUndefined \<or> (\<exists>r. get_prop args ''region'' = JString r))"
  unfolding isValidClusterStatusArgs_def typeof_string_iff
  using object_of_string_prop by blast

lemma delete_args_valid_iff:
  "isValidDeleteClusterArgs args \<longleftrightarrow>
     (\<exists>n. get_prop args ''clusterName'' = JString n) \<and>
     (get_prop args ''region'' = JUndefined \<or> (\<exists>r. get_prop args ''region'' = JString r))"
  unfolding isValidDeleteClusterArgs_def typeof_string_iff
  using object_of_string_prop by blast

lemma callTool_invalid:
  "\<not> isValidClusterStatusArgs args \<Longrightarrow>
     callTool env s ''get_eks_cluster_status'' args =
       (Inl (McpError InvalidParams ''Invalid arguments for get_eks_cluster_status''), s)"
  "\<not> isValidDeleteClusterArgs args \<Longrightarrow>
     callTool env s ''delete_eks_cluster'' args =
       (Inl (McpError InvalidParams ''Invalid arguments for delete_eks_cluster''), s)"
  "\<not> isValidCreateClusterArgs args \<Longrightarrow>
     callTool env s ''create_eks_cluster'' args =
       (Inl (McpError InvalidParams ''Invalid arguments for create_eks_cluster''), s)"
  by (simp_all add: callTool_def callTool_switch_def)

text \<open>
  C5, as the code has it. The arguments of \<open>get_eks_cluster_status\<close> and
  \<open>delete_eks_cluster\<close> pass validation exactly when \<open>clusterName\<close> is a string (any string)
  and \<open>region\<close> is absent or a string; the two validators agree. Arguments that do not pass
  yield \<open>InvalidParams\<close> with the server state untouched, so nothing is dispatched.
\<close>

theorem cluster_name_validation:
  "(isValidClusterStatusArgs args \<longleftrightarrow>
      (\<exists>n. get_prop args ''clusterName'' = JString n) \<and>
      (get_prop args ''region'' = JUndefined \<or> (\<exists>r. get_prop args ''region'' = JString r))) \<and>
   (isValidDeleteClusterArgs args \<longleftrightarrow> isValidClusterStatusArgs args) \<and>
   (\<not> isValidClusterStatusArgs args \<longrightarrow>
      callTool env s ''get_eks_cluster_status'' args =
        (Inl (McpError InvalidParams ''Invalid arguments for get_eks_cluster_status''), s) \<and>
      callTool env s ''delete_eks_cluster'' args =
        (Inl (McpError InvalidParams ''Invalid arguments for delete_eks_cluster''), s))"
proof -
  have eq: "isValidDeleteClusterArgs args \<longleftrightarrow> isValidClusterStatusArgs args"
    by (simp add: isValidDeleteClusterArgs_def isValidClusterStatusArgs_def)
  show ?thesis
    using status_args_valid_iff [of args] eq callTool_invalid(1,2) [of args env s]
    by blast
qed

text \<open>A numeric cluster name is rejected by both tools before anything is sent.\<close>

theorem cluster_name_validation_witness:
  "\<not> isValidClusterStatusArgs (JObject [(''clusterName'', JNumber 7)]) \<and>
   callTool demo_env demo_system ''get_eks_cluster_status'' (JObject [(''clusterName'', JNumber 7)]) =
     (Inl (McpError InvalidParams ''Invalid arguments for get_eks_cluster_status''), demo_system) \<and>
   callTool demo_env demo_system ''delete_eks_cluster'' (JObject [(''clusterName'', JNumber 7)]) =
     (Inl (McpError InvalidParams ''Invalid arguments for delete_eks_cluster''), demo_system)"
proof -
  have n: "\<not> isValidClusterStatusArgs (JObject [(''clusterName'', JNumber 7)])"
    by (simp add: isValidClusterStatusArgs_def)
  with cluster_name_validation [of "JObject [(''clusterName'', JNumber 7)]" demo_env demo_system]
  show ?thesis by blast
qed

text \<open>
  C5 as stated requires a non-empty cluster name. The empty string is a string: the
  arguments pass both validators and the calls are dispatched, reaching the control plane
  with the empty name.
\<close>

theorem empty_clusterName_is_dispatched:
  "get_prop (JObject [(''clusterName'', JString [])]) ''clusterName'' = JString [] \<and>
   isValidClusterStatusArgs (JObject [(''clusterName'', JString [])]) \<and>
   isValidDeleteClusterArgs (JObject [(''clusterName'', JString [])]) \<and>
   history (snd (callTool demo_env demo_system ''get_eks_cluster_status''
                   (JObject [(''clusterName'', JString [])]))) =
     [EksSend (eksClient demo_system) (DescribeClusterCommand [])] \<and>
   callTool demo_env demo_system ''delete_eks_cluster'' (JObject [(''clusterName'', JString [])]) =
     (Inr \<lparr>content_text =
             StatusJson \<lparr>os_status = SUCCESS,
                         os_message = ''Cluster  deletion initiated successfully'',
                         os_clusterDetails = None\<rparr>,
           isError = False\<rparr>,
      demo_system\<lparr>history := [EksSend (eksClient demo_system) (DeleteClusterCommand [])]\<rparr>)"
proof -
  let ?a = "JObject [(''clusterName'', JString [])]"
  have v: "isValidClusterStatusArgs ?a" "isValidDeleteClusterArgs ?a"
    by (simp_all add: isValidClusterStatusArgs_def isValidDeleteClusterArgs_def)
  have g: "history (snd (callTool demo_env demo_system ''get_eks_cluster_status'' ?a)) =
     [EksSend (eksClient demo_system) (DescribeClusterCommand [])]"
    using v(1)
    by (simp add: callTool_def callTool_switch_def handleGetClusterStatus_def opt_string_def
          getClusterStatus_snd update_region_if_provided_def demo_system_simps
          case_prod_beta split: sum.splits)
  have d: "deleteCluster demo_env demo_system [] None =
      (Inr \<lparr>os_status = SUCCESS,
                         os_message = ''Cluster  deletion initiated successfully'',
                         os_clusterDetails = None\<rparr>,
       demo_system\<lparr>history := [EksSend (eksClient demo_system) (DeleteClusterCommand [])]\<rparr>)"
    by (simp add: prod_eq_iff deleteCluster_fst deleteCluster_snd update_region_if_provided_def
          demo_env_simps demo_eks_send_def demo_system_simps)
  have d': "callTool demo_env demo_system ''delete_eks_cluster'' ?a =
     (Inr \<lparr>content_text =
             StatusJson \<lparr>os_status = SUCCESS,
                         os_message = ''Cluster  deletion initiated successfully'',
                         os_clusterDetails = None\<rparr>,
           isError = False\<rparr>,
      demo_system\<lparr>history := [EksSend (eksClient demo_system) (DeleteClusterCommand [])]\<rparr>)"
    using v(2)
    by (simp add: callTool_def callTool_switch_def handleDeleteCluster_def opt_string_def d)
  show ?thesis using v g d' by simp
qed

subsection \<open>Validation of \<open>create_eks_cluster\<close>\<close>

lemma create_args_valid_iff:
  "isValidCreateClusterArgs args \<longleftrightarrow>
     (\<exists>n. get_prop args ''clusterName'' = JString n) \<and>
     (\<exists>r. get_prop args ''region'' = JString r) \<and>
     (\<exists>v. get_prop args ''kubernetesVersion'' = JString v) \<and>
     (\<exists>a. get_prop args ''roleArn'' = JString a) \<and>
     (\<exists>ids. get_prop args ''subnetIds'' = JArray (map JString ids)) \<and>
     (get_prop args ''securityGroupIds'' = JUndefined \<or>
      (\<exists>ids. get_prop args ''securityGroupIds'' = JArray (map JString ids))) \<and>
     (get_prop args ''publicAccessCidrs'' = JUndefined \<or>
      (\<exists>cs. get_prop args ''publicAccessCidrs'' = JArray (map JString cs)))"
proof -
  have sa: "(Array_isArray v \<and> every_string v) = (\<exists>ids. v = JArray (map JString ids))" for v
    by (rule string_array_iff)
  have "isValidCreateClusterArgs args \<longleftrightarrow>
     js_typeof args = ''object'' \<and> args \<noteq> JNull \<and>
     (\<exists>n. get_prop args ''clusterName'' = JString n) \<and>
     (\<exists>r. get_prop args ''region'' = JString r) \<and>
     (\<exists>v. get_prop args ''kubernetesVersion'' = JString v) \<and>
     (\<exists>a. get_prop args ''roleArn'' = JString a) \<and>
     (Array_isArray (get_prop args ''subnetIds'') \<and> every_string (get_prop args ''subnetIds'')) \<and>
     (get_prop args ''securityGroupIds'' = JUndefined \<or>
      (Array_isArray (get_prop args ''securityGroupIds'') \<and>
       every_string (get_prop args ''securityGroupIds''))) \<and>
     (get_prop args ''publicAccessCidrs'' = JUndefined \<or>
      (Array_isArray (get_prop args ''publicAccessCidrs'') \<and>
       every_string (get_prop args ''publicAccessCidrs'')))"
    unfolding isValidCreateClusterArgs_def typeof_string_iff by blast
  then show ?thesis
    unfolding sa using object_of_string_prop by blast
qed

text \<open>
  C2, as the code has it. The arguments of \<open>create_eks_cluster\<close> pass validation exactly when
  \<open>clusterName\<close>, \<open>region\<close>, \<open>kubernetesVersion\<close> and \<open>roleArn\<close> are strings, \<open>subnetIds\<close> is
  an array of strings of any length, and \<open>securityGroupIds\<close> and \<open>publicAccessCidrs\<close> are each
  absent or an array of strings. Arguments that do not pass, those without \<open>subnetIds\<close> among
  them, yield \<open>InvalidParams\<close> with the server state untouched: no control-plane request has
  been issued.
\<close>

theorem create_args_validation:
  "(isValidCreateClusterArgs args \<longleftrightarrow>
     (\<exists>n. get_prop args ''clusterName'' = JString n) \<and>
     (\<exists>r. get_prop args ''region'' = JString r) \<and>
     (\<exists>v. get_prop args ''kubernetesVersion'' = JString v) \<and>
     (\<exists>a. get_prop args ''roleArn'' = JString a) \<and>
     (\<exists>ids. get_prop args ''subnetIds'' = JArray (map JString ids)) \<and>
     (get_prop args ''securityGroupIds'' = JUndefined \<or>
      (\<exists>ids. get_prop args ''securityGroupIds'' = JArray (map JString ids))) \<and>
     (get_prop args ''publicAccessCidrs'' = JUndefined \<or>
      (\<exists>cs. get_prop args ''publicAccessCidrs'' = JArray (map JString cs)))) \<and>
   (\<not> isValidCreateClusterArgs args \<longrightarrow>
      callTool env s ''create_eks_cluster'' args =
        (Inl (McpError InvalidParams ''Invalid arguments for create_eks_cluster''), s)) \<and>
   (get_prop args ''subnetIds'' = JUndefined \<longrightarrow>
      callTool env s ''create_eks_cluster'' args =
        (Inl (McpError InvalidParams ''Invalid arguments for create_eks_cluster''), s))"
proof -
  have inv: "\<not> isValidCreateClusterArgs args \<longrightarrow>
      callTool env s ''create_eks_cluster'' args =
        (Inl (McpError InvalidParams ''Invalid arguments for create_eks_cluster''), s)"
    using callTool_invalid(3) by blast
  have "get_prop args ''subnetIds'' = JUndefined \<longrightarrow> \<not> isValidCreateClusterArgs args"
    by (auto simp: create_args_valid_iff)
  with inv create_args_valid_iff [of args] show ?thesis by blast
qed

text \<open>A create call without \<open>subnetIds\<close> is rejected and leaves the server as it was.\<close>

theorem create_args_validation_witness:
  "get_prop (JObject create_args_base) ''subnetIds'' = JUndefined \<and>
   \<not> isValidCreateClusterArgs (JObject create_args_base) \<and>
   callTool demo_env demo_system ''create_eks_cluster'' (JObject create_args_base) =
     (Inl (McpError InvalidParams ''Invalid arguments for create_eks_cluster''), demo_system)"
proof -
  have u: "get_prop (JObject create_args_base) ''subnetIds'' = JUndefined"
    by (simp add: create_args_base_def)
  have n: "\<not> isValidCreateClusterArgs (JObject create_args_base)"
    unfolding isValidCreateClusterArgs_def u by simp
  from u n create_args_validation [of "JObject create_args_base" demo_env demo_system]
  show ?thesis by blast
qed

text \<open>
  C2 as stated requires at least one subnet. An empty \<open>subnetIds\<close> array passes the
  validator, and the create command, with no subnets, is sent to the control plane.
\<close>

theorem empty_subnetIds_is_dispatched:
  "get_prop (JObject (create_args_base @ [(''subnetIds'', JArray [])])) ''subnetIds'' = JArray [] \<and>
   isValidCreateClusterArgs (JObject (create_args_base @ [(''subnetIds'', JArray [])])) \<and>
   history (snd (callTool demo_env demo_system ''create_eks_cluster''
                   (JObject (create_args_base @ [(''subnetIds'', JArray [])])))) =
     [EksSend (new_EKSClient ''eu-west-1'')
        (CreateClusterCommand
           (create_command_input
              \<lparr>clusterName = ''new'', region = ''eu-west-1'', kubernetesVersion = ''1.28'',
               roleArn = ''arn:aws:iam::1:role/eks'', subnetIds = [],
               securityGroupIds = None, publicAccessCidrs = None\<rparr>))]"
proof -
  let ?a = "JObject (create_args_base @ [(''subnetIds'', JArray [])])"
  have g: "get_prop ?a ''subnetIds'' = JArray []"
    by (simp add: create_args_base_def)
  have v: "isValidCreateClusterArgs ?a"
    by (simp add: isValidCreateClusterArgs_def create_args_base_def)
  have r: "as_CreateClusterRequest ?a =
      \<lparr>clusterName = ''new'', region = ''eu-west-1'', kubernetesVersion = ''1.28'',
               roleArn = ''arn:aws:iam::1:role/eks'', subnetIds = [],
               securityGroupIds = None, publicAccessCidrs = None\<rparr>"
    by (simp add: as_CreateClusterRequest_def create_args_base_def opt_strings_def)
  have h: "history (snd (callTool demo_env demo_system ''create_eks_cluster'' ?a)) =
           history (snd (createCluster demo_env demo_system (as_CreateClusterRequest ?a)))"
    using v
    by (simp add: callTool_def callTool_switch_def handleCreateCluster_def
          case_prod_beta split: sum.splits)
  have "history (snd (createCluster demo_env demo_system (as_CreateClusterRequest ?a))) =
     [EksSend (new_EKSClient ''eu-west-1'')
        (CreateClusterCommand (create_command_input (as_CreateClusterRequest ?a)))]"
    unfolding r
    by (simp add: createCluster_snd createCluster_try_snd send_eks_history demo_system_simps)
  with g v h r show ?thesis by simp
qed

subsection \<open>Namespace filtering\<close>

lemma targetNamespace_none:
  "targetNamespace None = None" "targetNamespace (Some []) = None"
  "targetNamespace (Some ''all'') = None"
  by (simp_all add: targetNamespace_def)

lemma targetNamespace_some:
  "ns \<noteq> [] \<Longrightarrow> ns \<noteq> ''all'' \<Longrightarrow> targetNamespace (Some ns) = Some ns"
  by (simp add: targetNamespace_def)

lemma listClusterDeployments_target:
  assumes e: "targetNamespace n1 = targetNamespace n2"
  shows "listClusterDeployments env s cname region_opt n1 =
         listClusterDeployments env s cname region_opt n2"
  unfolding listClusterDeployments_def listClusterDeployments_try_def e by (rule refl)

lemma project_pods_names:
  "map pi_name (fst (project_pods env s xs)) =
     map (\<lambda>p. or_str (Option.bind (pod_metadata p) meta_name) ''unknown'') xs"
  by (induction xs arbitrary: s) (simp_all add: project_pod_def Let_def case_prod_beta)

lemma project_pods_namespaces:
  "map pi_namespace (fst (project_pods env s xs)) =
     map (\<lambda>p. or_str (Option.bind (pod_metadata p) meta_namespace) ''default'') xs"
  by (induction xs arbitrary: s) (simp_all add: project_pod_def Let_def case_prod_beta)

lemma project_service_fields:
  "project_service env s v = (Inr i, s') \<Longrightarrow>
     si_name i = or_str (Option.bind (svc_metadata v) meta_name) ''unknown'' \<and>
     si_namespace i = or_str (Option.bind (svc_metadata v) meta_namespace) ''default''"
  by (auto simp: project_service_def Let_def case_prod_beta split: sum.splits)

lemma project_services_fields:
  "fst (project_services env s xs) = Inr is \<Longrightarrow>
     map si_name is = map (\<lambda>v. or_str (Option.bind (svc_metadata v) meta_name) ''unknown'') xs \<and>
     map si_namespace is =
       map (\<lambda>v. or_str (Option.bind (svc_metadata v) meta_namespace) ''default'') xs"
proof (induction xs arbitrary: s "is")
  case Nil
  then show ?case by simp
next
  case (Cons v vs)
  obtain r s1 where p: "project_service env s v = (r, s1)" by (cases "project_service env s v")
  from Cons.prems p obtain i where r: "r = Inr i"
    by (cases r) simp_all
  obtain r2 s2 where q: "project_services env s1 vs = (r2, s2)"
    by (cases "project_services env s1 vs")
  from Cons.prems p r q obtain js where r2: "r2 = Inr js" and "is": "is = i # js"
    by (cases r2) simp_all
  from Cons.IH [of s1 js] q r2
  have ih: "map si_name js = map (\<lambda>v. or_str (Option.bind (svc_metadata v) meta_name) ''unknown'') vs \<and>
     map si_namespace js =
       map (\<lambda>v. or_str (Option.bind (svc_metadata v) meta_namespace) ''default'') vs"
    by simp
  from project_service_fields [of env s v i s1] p r
  have hd: "si_name i = or_str (Option.bind (svc_metadata v) meta_name) ''unknown'' \<and>
     si_namespace i = or_str (Option.bind (svc_metadata v) meta_namespace) ''default''"
    by simp
  from ih hd "is" show ?case by simp
qed

lemma listClusterDeployments_result:
  assumes gs: "getClusterStatus env s cname region_opt = (Inr cd, s1)"
      and ca: "configureEKSAuth env s1 cd (or_str region_opt ''us-east-1'') = (Inr kc, s2)"
      and lp: "listPodForAllNamespaces env (history s2) kc = Inr podItems"
      and ls: "listServiceForAllNamespaces env (history s2 @ [ListPods kc]) kc = Inr serviceItems"
      and ok: "fst (listClusterDeployments env s cname region_opt namespace) = Inr d"
  shows "\<exists>sa sb.
           pods d = fst (project_pods env sa
                      (filter_namespace (targetNamespace namespace) pod_metadata podItems)) \<and>
           fst (project_services env sb
                  (filter_namespace (targetNamespace namespace) svc_metadata serviceItems)) =
             Inr (services d)"
proof -
  let ?s4 = "s2\<lparr>history := history s2 @ [ListPods kc, ListServices kc]\<rparr>"
  let ?fp = "filter_namespace (targetNamespace namespace) pod_metadata podItems"
  let ?fs = "filter_namespace (targetNamespace namespace) svc_metadata serviceItems"
  let ?s5 = "snd (project_pods env ?s4 ?fp)"
  have t: "listClusterDeployments_try env s cname region_opt namespace =
      (case project_services env ?s5 ?fs of
         (Inl e, s6) \<Rightarrow> (Inl e, s6)
       | (Inr serviceInfos, s6) \<Rightarrow>
           (Inr \<lparr>pods = fst (project_pods env ?s4 ?fp), services = serviceInfos\<rparr>, s6))"
    using gs ca lp ls
    by (simp add: listClusterDeployments_try_def Let_def case_prod_beta)
  obtain r s6 where ps: "project_services env ?s5 ?fs = (r, s6)"
    by (cases "project_services env ?s5 ?fs")
  from ok t ps obtain infos where r: "r = Inr infos"
    by (cases r) (simp_all add: listClusterDeployments_def)
  from ok t ps r have d: "d = \<lparr>pods = fst (project_pods env ?s4 ?fp), services = infos\<rparr>"
    by (simp add: listClusterDeployments_def)
  have "pods d = fst (project_pods env ?s4 ?fp)" using d by simp
  moreover have "fst (project_services env ?s5 ?fs) = Inr (services d)"
    using ps r d by simp
  ultimately show ?thesis by blast
qed

lemma project_services_total:
  "(\<forall>v \<in> set vs. \<exists>x. getExternalIP v = Inr x) \<Longrightarrow>
   \<exists>is. fst (project_services env s vs) = Inr is"
proof (induction vs arbitrary: s)
  case Nil
  then show ?case by simp
next
  case (Cons v vs)
  then obtain x where x: "getExternalIP v = Inr x" by auto
  obtain i s1 where p: "project_service env s v = (Inr i, s1)"
    by (simp add: project_service_def x Let_def case_prod_beta)
  from Cons obtain js where "fst (project_services env s1 vs) = Inr js" by fastforce
  then show ?case using p by (cases "project_services env s1 vs") simp
qed

lemma listClusterDeployments_success:
  assumes gs: "getClusterStatus env s cname region_opt = (Inr cd, s1)"
      and ca: "configureEKSAuth env s1 cd (or_str region_opt ''us-east-1'') = (Inr kc, s2)"
      and lp: "listPodForAllNamespaces env (history s2) kc = Inr podItems"
      and ls: "listServiceForAllNamespaces env (history s2 @ [ListPods kc]) kc = Inr serviceItems"
      and ip: "\<forall>v \<in> set serviceItems. \<exists>x. getExternalIP v = Inr x"
  shows "\<exists>d. fst (listClusterDeployments env s cname region_opt namespace) = Inr d"
proof -
  let ?s4 = "s2\<lparr>history := history s2 @ [ListPods kc, ListServices kc]\<rparr>"
  let ?fp = "filter_namespace (targetNamespace namespace) pod_metadata podItems"
  let ?fs = "filter_namespace (targetNamespace namespace) svc_metadata serviceItems"
  let ?s5 = "snd (project_pods env ?s4 ?fp)"
  have t: "listClusterDeployments_try env s cname region_opt namespace =
      (case project_services env ?s5 ?fs of
         (Inl e, s6) \<Rightarrow> (Inl e, s6)
       | (Inr serviceInfos, s6) \<Rightarrow>
           (Inr \<lparr>pods = fst (project_pods env ?s4 ?fp), services = serviceInfos\<rparr>, s6))"
    using gs ca lp ls
    by (simp add: listClusterDeployments_try_def Let_def case_prod_beta)
  have "\<forall>v \<in> set ?fs. \<exists>x. getExternalIP v = Inr x"
    using ip by (auto simp: filter_namespace_def split: option.splits)
  from project_services_total [OF this, of env ?s5]
  obtain "is" where "fst (project_services env ?s5 ?fs) = Inr is" by blast
  then show ?thesis
    unfolding listClusterDeployments_def t
    by (cases "project_services env ?s5 ?fs") simp
qed

lemma demo_env_api:
  "listPodForAllNamespaces demo_env h kc =
     Inr [demo_pod ''web'' ''default'', demo_pod ''dns'' ''kube-system'']"
  "listServiceForAllNamespaces demo_env h kc =
     Inr [demo_service ''web'' ''default'', demo_service ''dns'' ''kube-system'']"
  "\<exists>i. sts_send demo_env h cfg = Inr i"
  by (simp_all add: demo_env_def)

lemma configureEKSAuth_demo: "\<exists>kc s2. configureEKSAuth demo_env s cd r = (Inr kc, s2)"
proof -
  obtain i where "sts_send demo_env (history s) (stsClient s) = Inr i"
    using demo_env_api(3) by blast
  then show ?thesis
    by (simp add: configureEKSAuth_def getCallerIdentity_def generateEKSToken_def Let_def)
qed

text \<open>
  C10. A call of \<open>listClusterDeployments\<close> with the empty string as namespace, and one with
  the namespace \<open>all\<close>, is the same call as one without a namespace: same result, same
  requests. When the cluster is found, the session is built and the cluster API server
  answers with its pods and services, a successful call without a namespace returns one
  entry for every pod and every service of the answer, in order; a successful call with a
  non-empty namespace other than \<open>all\<close> returns the entries of exactly the pods and services
  whose namespace field equals it, and every returned entry carries that namespace.
\<close>

theorem listClusterDeployments_namespace:
  "listClusterDeployments env s cname region_opt (Some []) =
     listClusterDeployments env s cname region_opt None \<and>
   listClusterDeployments env s cname region_opt (Some ''all'') =
     listClusterDeployments env s cname region_opt None \<and>
   (getClusterStatus env s cname region_opt = (Inr cd, s1) \<and>
    configureEKSAuth env s1 cd (or_str region_opt ''us-east-1'') = (Inr kc, s2) \<and>
    listPodForAllNamespaces env (history s2) kc = Inr podItems \<and>
    listServiceForAllNamespaces env (history s2 @ [ListPods kc]) kc = Inr serviceItems \<longrightarrow>
      (fst (listClusterDeployments env s cname region_opt None) = Inr d \<longrightarrow>
         map pi_name (pods d) =
           map (\<lambda>p. or_str (Option.bind (pod_metadata p) meta_name) ''unknown'') podItems \<and>
         map si_name (services d) =
           map (\<lambda>v. or_str (Option.bind (svc_metadata v) meta_name) ''unknown'') serviceItems) \<and>
      (ns \<noteq> [] \<and> ns \<noteq> ''all'' \<and>
       fst (listClusterDeployments env s cname region_opt (Some ns)) = Inr d' \<longrightarrow>
         map pi_name (pods d') =
           map (\<lambda>p. or_str (Option.bind (pod_metadata p) meta_name) ''unknown'')
             (filter (\<lambda>p. Option.bind (pod_metadata p) meta_namespace = Some ns) podItems) \<and>
         map si_name (services d') =
           map (\<lambda>v. or_str (Option.bind (svc_metadata v) meta_name) ''unknown'')
             (filter (\<lambda>v. Option.bind (svc_metadata v) meta_namespace = Some ns) serviceItems) \<and>
         (\<forall>p \<in> set (pods d'). pi_namespace p = ns) \<and>
         (\<forall>v \<in> set (services d'). si_namespace v = ns)))"
proof (intro conjI impI)
  show "listClusterDeployments env s cname region_opt (Some []) =
     listClusterDeployments env s cname region_opt None"
    by (rule listClusterDeployments_target) (simp add: targetNamespace_none)
  show "listClusterDeployments env s cname region_opt (Some ''all'') =
     listClusterDeployments env s cname region_opt None"
    by (rule listClusterDeployments_target) (simp add: targetNamespace_none)
next
  assume h: "getClusterStatus env s cname region_opt = (Inr cd, s1) \<and>
    configureEKSAuth env s1 cd (or_str region_opt ''us-east-1'') = (Inr kc, s2) \<and>
    listPodForAllNamespaces env (history s2) kc = Inr podItems \<and>
    listServiceForAllNamespaces env (history s2 @ [ListPods kc]) kc = Inr serviceItems"
  assume ok: "fst (listClusterDeployments env s cname region_opt None) = Inr d"
  from listClusterDeployments_result [of env s cname region_opt cd s1 kc s2 podItems serviceItems None d]
    h ok
  obtain sa sb where
    p: "pods d = fst (project_pods env sa podItems)" and
    v: "fst (project_services env sb serviceItems) = Inr (services d)"
    by (auto simp: targetNamespace_none filter_namespace_def)
  show "map pi_name (pods d) =
           map (\<lambda>p. or_str (Option.bind (pod_metadata p) meta_name) ''unknown'') podItems"
    by (simp add: p project_pods_names)
  show "map si_name (services d) =
           map (\<lambda>v. or_str (Option.bind (svc_metadata v) meta_name) ''unknown'') serviceItems"
    using project_services_fields [OF v] by simp
next
  assume h: "getClusterStatus env s cname region_opt = (Inr cd, s1) \<and>
    configureEKSAuth env s1 cd (or_str region_opt ''us-east-1'') = (Inr kc, s2) \<and>
    listPodForAllNamespaces env (history s2) kc = Inr podItems \<and>
    listServiceForAllNamespaces env (history s2 @ [ListPods kc]) kc = Inr serviceItems"
  assume f: "ns \<noteq> [] \<and> ns \<noteq> ''all'' \<and>
       fst (listClusterDeployments env s cname region_opt (Some ns)) = Inr d'"
  let ?pf = "filter (\<lambda>p. Option.bind (pod_metadata p) meta_namespace = Some ns) podItems"
  let ?vf = "filter (\<lambda>v. Option.bind (svc_metadata v) meta_namespace = Some ns) serviceItems"
  from f have ne: "ns \<noteq> []" by simp
  from listClusterDeployments_result
         [of env s cname region_opt cd s1 kc s2 podItems serviceItems "Some ns" d'] h f
  obtain sa sb where
    p: "pods d' = fst (project_pods env sa ?pf)" and
    v: "fst (project_services env sb ?vf) = Inr (services d')"
    by (auto simp: targetNamespace_some filter_namespace_def)
  show pn: "map pi_name (pods d') =
           map (\<lambda>p. or_str (Option.bind (pod_metadata p) meta_name) ''unknown'') ?pf"
    by (simp add: p project_pods_names)
  show vn: "map si_name (services d') =
           map (\<lambda>v. or_str (Option.bind (svc_metadata v) meta_name) ''unknown'') ?vf"
    using project_services_fields [OF v] by simp
  have "map pi_namespace (pods d') =
          map (\<lambda>p. or_str (Option.bind (pod_metadata p) meta_namespace) ''default'') ?pf"
    by (simp add: p project_pods_namespaces)
  also have "\<dots> = map (\<lambda>p. ns) ?pf"
    using ne by (simp add: or_str_def)
  finally have "set (map pi_namespace (pods d')) \<subseteq> {ns}" by auto
  then show "\<forall>p \<in> set (pods d'). pi_namespace p = ns" by auto
  have "map si_namespace (services d') =
          map (\<lambda>v. or_str (Option.bind (svc_metadata v) meta_namespace) ''default'') ?vf"
    using project_services_fields [OF v] by simp
  also have "\<dots> = map (\<lambda>v. ns) ?vf"
    using ne by (simp add: or_str_def)
  finally have "set (map si_namespace (services d')) \<subseteq> {ns}" by auto
  then show "\<forall>v \<in> set (services d'). si_namespace v = ns" by auto
qed

text \<open>
  In the concrete world the server has a pod and a service in \<open>default\<close> and in
  \<open>kube-system\<close>: the unfiltered call returns both of each, the call for \<open>default\<close> one of
  each.
\<close>

theorem listClusterDeployments_namespace_witness:
  "\<exists>cd s1 kc s2 d d'.
     getClusterStatus demo_env demo_system ''a'' None = (Inr cd, s1) \<and>
     configureEKSAuth demo_env s1 cd (or_str None ''us-east-1'') = (Inr kc, s2) \<and>
     listPodForAllNamespaces demo_env (history s2) kc =
       Inr [demo_pod ''web'' ''default'', demo_pod ''dns'' ''kube-system''] \<and>
     listServiceForAllNamespaces demo_env (history s2 @ [ListPods kc]) kc =
       Inr [demo_service ''web'' ''default'', demo_service ''dns'' ''kube-system''] \<and>
     fst (listClusterDeployments demo_env demo_system ''a'' None None) = Inr d \<and>
     map pi_name (pods d) = [''web'', ''dns''] \<and> map si_name (services d) = [''web'', ''dns''] \<and>
     ''default'' \<noteq> [] \<and> ''default'' \<noteq> ''all'' \<and>
     fst (listClusterDeployments demo_env demo_system ''a'' None (Some ''default'')) = Inr d' \<and>
     map pi_name (pods d') = [''web''] \<and> map si_name (services d') = [''web''] \<and>
     (\<forall>p \<in> set (pods d'). pi_namespace p = ''default'') \<and>
     (\<forall>v \<in> set (services d'). si_namespace v = ''default'')"
proof -
  let ?pods = "[demo_pod ''web'' ''default'', demo_pod ''dns'' ''kube-system'']"
  let ?svcs = "[demo_service ''web'' ''default'', demo_service ''dns'' ''kube-system'']"
  obtain r s1 where gs0: "getClusterStatus demo_env demo_system ''a'' None = (r, s1)"
    by (cases "getClusterStatus demo_env demo_system ''a'' None")
  have "fst (getClusterStatus demo_env demo_system ''a'' None) =
        Inr (mapClusterToDetails (demo_cluster ''a''))"
    by (simp add: getClusterStatus_fst demo_env_simps demo_eks_send_def)
  with gs0 have gs: "getClusterStatus demo_env demo_system ''a'' None =
        (Inr (mapClusterToDetails (demo_cluster ''a'')), s1)" by simp
  obtain kc s2 where ca:
    "configureEKSAuth demo_env s1 (mapClusterToDetails (demo_cluster ''a''))
       (or_str None ''us-east-1'') = (Inr kc, s2)"
    using configureEKSAuth_demo by blast
  have lp: "listPodForAllNamespaces demo_env (history s2) kc = Inr ?pods"
    and ls: "listServiceForAllNamespaces demo_env (history s2 @ [ListPods kc]) kc = Inr ?svcs"
    by (simp_all add: demo_env_api)
  have ip: "\<forall>v \<in> set ?svcs. \<exists>x. getExternalIP v = Inr x"
    by (simp add: getExternalIP_def demo_service_def)
  obtain d' where ok:
    "fst (listClusterDeployments demo_env demo_system ''a'' None (Some ''default'')) = Inr d'"
    using listClusterDeployments_success [OF gs ca lp ls ip] by blast
  obtain d where ok0:
    "fst (listClusterDeployments demo_env demo_system ''a'' None None) = Inr d"
    using listClusterDeployments_success [OF gs ca lp ls ip] by blast
  have ne: "''default'' \<noteq> [] \<and> ''default'' \<noteq> ''all''" by simp
  note inst = listClusterDeployments_namespace
         [where env = demo_env and s = demo_system and cname = "''a''" and region_opt = None
            and cd = "mapClusterToDetails (demo_cluster ''a'')" and ?s1.0 = s1 and kc = kc
            and ?s2.0 = s2 and podItems = ?pods and serviceItems = ?svcs
            and ns = "''default''" and d = d and d' = d']
  from inst gs ca lp ls ok0
  have c0: "map pi_name (pods d) =
           map (\<lambda>p. or_str (Option.bind (pod_metadata p) meta_name) ''unknown'') ?pods \<and>
         map si_name (services d) =
           map (\<lambda>v. or_str (Option.bind (svc_metadata v) meta_name) ''unknown'') ?svcs"
    by blast
  then have n0: "map pi_name (pods d) = [''web'', ''dns'']"
    "map si_name (services d) = [''web'', ''dns'']"
    by (simp_all add: demo_pod_def demo_service_def or_str_def)
  from inst gs ca lp ls ne ok
  have c: "map pi_name (pods d') =
           map (\<lambda>p. or_str (Option.bind (pod_metadata p) meta_name) ''unknown'')
             (filter (\<lambda>p. Option.bind (pod_metadata p) meta_namespace = Some ''default'') ?pods) \<and>
         map si_name (services d') =
           map (\<lambda>v. or_str (Option.bind (svc_metadata v) meta_name) ''unknown'')
             (filter (\<lambda>v. Option.bind (svc_metadata v) meta_namespace = Some ''default'') ?svcs) \<and>
         (\<forall>p \<in> set (pods d'). pi_namespace p = ''default'') \<and>
         (\<forall>v \<in> set (services d'). si_namespace v = ''default'')"
    by blast
  then have n: "map pi_name (pods d') = [''web'']" "map si_name (services d') = [''web'']"
    by (simp_all add: demo_pod_def demo_service_def or_str_def)
  from c have m: "\<forall>p \<in> set (pods d'). pi_namespace p = ''default''"
    "\<forall>v \<in> set (services d'). si_namespace v = ''default''"
    by blast+
  have "getClusterStatus demo_env demo_system ''a'' None =
          (Inr (mapClusterToDetails (demo_cluster ''a'')), s1) \<and>
     configureEKSAuth demo_env s1 (mapClusterToDetails (demo_cluster ''a''))
       (or_str None ''us-east-1'') = (Inr kc, s2) \<and>
     listPodForAllNamespaces demo_env (history s2) kc = Inr ?pods \<and>
     listServiceForAllNamespaces demo_env (history s2 @ [ListPods kc]) kc = Inr ?svcs \<and>
     fst (listClusterDeployments demo_env demo_system ''a'' None None) = Inr d \<and>
     map pi_name (pods d) = [''web'', ''dns''] \<and> map si_name (services d) = [''web'', ''dns''] \<and>
     ''default'' \<noteq> [] \<and> ''default'' \<noteq> ''all'' \<and>
     fst (listClusterDeployments demo_env demo_system ''a'' None (Some ''default'')) = Inr d' \<and>
     map pi_name (pods d') = [''web''] \<and> map si_name (services d') = [''web''] \<and>
     (\<forall>p \<in> set (pods d'). pi_namespace p = ''default'') \<and>
     (\<forall>v \<in> set (services d'). si_namespace v = ''default'')"
    by (intro conjI gs ca lp ls ok0 n0 ok n m) simp_all
  then show ?thesis by (intro exI)
qed

end
